theory Spec2Isabelle
  imports Complex_Main
begin

section \<open>Common vocabulary\<close>

text \<open>
  Errors of the engine as values. \<open>InvalidArgument\<close> and \<open>OutOfRange\<close> are the two
  standard exceptions thrown through \<^verbatim>\<open>THROW_STD\<close>; \<open>OutOfBounds\<close> stands for an access
  outside a vector or bitmap, which the C++ leaves undefined (the guarding \<^verbatim>\<open>assert\<close>s
  vanish under \<^verbatim>\<open>NDEBUG\<close>): the model stops there instead of inventing a value.
\<close>

datatype error = InvalidArgument | OutOfRange | OutOfBounds

definition bindE :: "error + 'a \<Rightarrow> ('a \<Rightarrow> error + 'b) \<Rightarrow> error + 'b" where
  "bindE m f = (case m of Inl e \<Rightarrow> Inl e | Inr x \<Rightarrow> f x)"

text \<open>Checked vector access with a signed index (\<^verbatim>\<open>v[i]\<close>, \<^verbatim>\<open>v.back()\<close>, \<^verbatim>\<open>v.end()[-2]\<close>).\<close>

definition vec_at :: "'a list \<Rightarrow> int \<Rightarrow> error + 'a" where
  "vec_at v i = (if 0 \<le> i \<and> i < int (length v) then Inr (v ! nat i) else Inl OutOfBounds)"

definition vec_set :: "'a list \<Rightarrow> int \<Rightarrow> 'a \<Rightarrow> error + 'a list" where
  "vec_set v i x = (if 0 \<le> i \<and> i < int (length v) then Inr (v[nat i := x]) else Inl OutOfBounds)"

definition vec_back :: "'a list \<Rightarrow> error + 'a" where
  "vec_back v = vec_at v (int (length v) - 1)"

definition vec_set_back :: "'a list \<Rightarrow> 'a \<Rightarrow> error + 'a list" where
  "vec_set_back v x = vec_set v (int (length v) - 1) x"

section \<open>The composite table (src/src/nark/db/db\_table.cpp)\<close>

type_synonym row = string
type_synonym key = string

text \<open>
  Every segment class of both source files owns the deletion bitmap \<^verbatim>\<open>m_isDel\<close>; it is
  the common root of the two segment records below.

  A segment as the table sees it: the deletion bitmap \<^verbatim>\<open>m_isDel\<close>, the row store
  (a physically removed row is \<open>None\<close>), one key-to-sub-id multimap per index, and
  whether \<^verbatim>\<open>getWritableStore()\<close> is non-null.
\<close>

record segment_core =
  m_isDel :: "bool list"

record segment = segment_core +
  m_store :: "row option list"
  m_indices :: "(key \<times> int) list list"
  m_writable :: bool

text \<open>
  The table. \<^verbatim>\<open>m_wrSeg\<close> is not a field: every assignment to it in the source either
  takes \<^verbatim>\<open>m_segments.back()\<close> (openTable) or is followed by
  \<^verbatim>\<open>m_segments.push_back(m_wrSeg)\<close> (createTable, openTable, maybeCreateNewSegment),
  so the pointer always aliases the last element of \<^verbatim>\<open>m_segments\<close>.
\<close>

record table =
  m_segments :: "segment list"
  m_segments_capacity :: nat
  m_rowNumVec :: "int list"
  m_deletedWrIdSet :: "int list"
  m_tableScanningRefCount :: nat
  m_maxWrSegSize :: int
  m_readonlyDataMemSize :: int
  m_rowSchema :: "string list"
  m_indexSchemaSet :: "string list list"
  m_indexProjects :: "nat list list"
  m_nonIndexRowSchema :: "string list"

definition DEFAULT_readonlyDataMemSize :: int where
  "DEFAULT_readonlyDataMemSize = 2 * 1024 * 1024 * 1024"

definition DEFAULT_maxWrSegSize :: int where
  "DEFAULT_maxWrSegSize = 3 * 1024 * 1024 * 1024"

definition DEFAULT_maxSegNum :: nat where
  "DEFAULT_maxSegNum = 4095"

text \<open>The constructor \<^verbatim>\<open>CompositeTable::CompositeTable()\<close>.\<close>

definition CompositeTable :: table where
  "CompositeTable =
     \<lparr> m_segments = [], m_segments_capacity = DEFAULT_maxSegNum, m_rowNumVec = [0],
       m_deletedWrIdSet = [], m_tableScanningRefCount = 0,
       m_maxWrSegSize = DEFAULT_maxWrSegSize,
       m_readonlyDataMemSize = DEFAULT_readonlyDataMemSize,
       m_rowSchema = [], m_indexSchemaSet = [], m_indexProjects = [],
       m_nonIndexRowSchema = [] \<rparr>"

text \<open>\<^verbatim>\<open>createWritableSegment\<close> (pure virtual in the table): a fresh, empty writable
  segment with one empty index per index schema.\<close>

definition createWritableSegment :: "nat \<Rightarrow> segment" where
  "createWritableSegment indexNum =
     \<lparr> m_isDel = [], m_store = [], m_indices = replicate indexNum [], m_writable = True \<rparr>"

definition seg_numDataRows :: "segment \<Rightarrow> int" where
  "seg_numDataRows s = int (length (m_isDel s))"

definition getIndexNum :: "table \<Rightarrow> nat" where
  "getIndexNum t = length (m_indexSchemaSet t)"

definition wrSeg :: "table \<Rightarrow> error + segment" where
  "wrSeg t = vec_back (m_segments t)"

definition set_wrSeg :: "segment \<Rightarrow> table \<Rightarrow> error + table" where
  "set_wrSeg w t = bindE (vec_set_back (m_segments t) w) (\<lambda>segs. Inr (t\<lparr>m_segments := segs\<rparr>))"

subsection \<open>createTable\<close>

text \<open>\<^verbatim>\<open>Schema::getColumnId\<close>: the position of the name, or \<^verbatim>\<open>columnNum()\<close> when the
  schema has no such column.\<close>

fun getColumnId :: "string list \<Rightarrow> string \<Rightarrow> nat" where
  "getColumnId [] c = 0"
| "getColumnId (x # xs) c = (if x = c then 0 else Suc (getColumnId xs c))"

text \<open>
  The inner loop \<^verbatim>\<open>for (size_t j = 0; j < schema.columnNum(); ++i)\<close> of createTable:
  \<open>j\<close> stays \<open>0\<close>, the outer counter \<open>i\<close> is the one incremented and the one passed
  to \<^verbatim>\<open>schema.getColumnName(i)\<close>. The state is \<open>(i, projection of this index, hasIndex)\<close>.
  Reading a column name past the index schema's columns is \<open>OutOfBounds\<close>.
\<close>

function createTable_inner ::
  "string list \<Rightarrow> string list \<Rightarrow> nat \<Rightarrow> nat list \<Rightarrow> bool list
   \<Rightarrow> error + (nat \<times> nat list \<times> bool list)" where
  "createTable_inner rowSchema schema i proj hasIndex =
     (if 0 < length schema then
        (if i < length schema then
           (if getColumnId rowSchema (schema ! i) \<ge> length rowSchema then Inl InvalidArgument
            else createTable_inner rowSchema schema (Suc i)
                   (proj @ [getColumnId rowSchema (schema ! i)])
                   (hasIndex[getColumnId rowSchema (schema ! i) := True]))
         else Inl OutOfBounds)
      else Inr (i, proj, hasIndex))"
  by pat_completeness auto
termination
  by (relation "measure (\<lambda>(rowSchema, schema, i, proj, hasIndex). length schema - i)") auto

declare createTable_inner.simps [simp del]

text \<open>The inner loop hands control back only for an index schema without columns,
  and then it has not moved the counter.\<close>

lemma createTable_inner_Inr:
  "createTable_inner rowSchema schema i proj hasIndex = Inr r \<Longrightarrow>
     schema = [] \<and> r = (i, proj, hasIndex)"
proof (induction rowSchema schema i proj hasIndex rule: createTable_inner.induct)
  case (1 rowSchema schema i proj hasIndex)
  from "1.prems" have unfolded:
    "(if 0 < length schema then
        (if i < length schema then
           (if getColumnId rowSchema (schema ! i) \<ge> length rowSchema then Inl InvalidArgument
            else createTable_inner rowSchema schema (Suc i)
                   (proj @ [getColumnId rowSchema (schema ! i)])
                   (hasIndex[getColumnId rowSchema (schema ! i) := True]))
         else Inl OutOfBounds)
      else Inr (i, proj, hasIndex)) = Inr r"
    by (subst (asm) createTable_inner.simps)
  show ?case
  proof (cases "0 < length schema")
    case False
    with unfolded show ?thesis by auto
  next
    case nonempty: True
    show ?thesis
    proof (cases "i < length schema")
      case False
      with nonempty unfolded show ?thesis by simp
    next
      case inside: True
      show ?thesis
      proof (cases "getColumnId rowSchema (schema ! i) \<ge> length rowSchema")
        case True
        with nonempty inside unfolded show ?thesis by simp
      next
        case False
        with nonempty inside unfolded
        have "createTable_inner rowSchema schema (Suc i)
                (proj @ [getColumnId rowSchema (schema ! i)])
                (hasIndex[getColumnId rowSchema (schema ! i) := True]) = Inr r"
          by simp
        with "1.IH" [OF nonempty inside False] nonempty show ?thesis by simp
      qed
    qed
  qed
qed

text \<open>The outer loop \<^verbatim>\<open>for (size_t i = 0; i < indexSchemaSet->m_nested.end_i(); ++i)\<close>;
  its counter continues from wherever the inner loop left it.\<close>

function createTable_outer ::
  "string list \<Rightarrow> string list list \<Rightarrow> nat \<Rightarrow> nat list list \<Rightarrow> bool list
   \<Rightarrow> error + (nat list list \<times> bool list)" where
  "createTable_outer rowSchema indexSchemaSet i projs hasIndex =
     (if i < length indexSchemaSet then
        (case createTable_inner rowSchema (indexSchemaSet ! i) i [] hasIndex of
           Inl e \<Rightarrow> Inl e
         | Inr (i', proj, hasIndex') \<Rightarrow>
             createTable_outer rowSchema indexSchemaSet (Suc i') (projs @ [proj]) hasIndex')
      else Inr (projs, hasIndex))"
  by pat_completeness auto
termination
proof (relation "measure (\<lambda>(rowSchema, indexSchemaSet, i, projs, hasIndex).
        length indexSchemaSet - i)", goal_cases)
  case 1
  show ?case by simp
next
  case (2 rowSchema indexSchemaSet i projs hasIndex r i' rest proj hasIndex')
  from 2 have "i' = i"
    using createTable_inner_Inr [of rowSchema "indexSchemaSet ! i" i "[]" hasIndex r]
    by simp
  with 2 show ?case by simp
qed

definition createTable ::
  "string \<Rightarrow> string \<Rightarrow> string list \<Rightarrow> string list list \<Rightarrow> table \<Rightarrow> error + table" where
  "createTable dir name rowSchema indexSchemaSet t =
     (if m_segments t \<noteq> [] then Inl InvalidArgument
      else
        (case createTable_outer rowSchema indexSchemaSet 0 []
                (replicate (length rowSchema) False) of
           Inl e \<Rightarrow> Inl e
         | Inr (projs, hasIndex) \<Rightarrow>
             Inr (t\<lparr> m_rowSchema := rowSchema,
                    m_indexSchemaSet := indexSchemaSet,
                    m_indexProjects := projs,
                    m_nonIndexRowSchema :=
                      map fst (filter (\<lambda>(c, h). \<not> h) (zip rowSchema hasIndex)),
                    m_segments := [createWritableSegment (length indexSchemaSet)] \<rparr>)))"

declare createTable_outer.simps [simp del]

subsection \<open>openTable: building the segment list and the prefix sums\<close>

text \<open>
  Lines 172--203 of openTable, after the metadata has been read: the read-only segments
  \<open>rd-NNNN\<close> and the writable segments \<open>wr-NNNN\<close> found on disk are pushed in order, each
  followed by the running row count; then either the last writable segment is adopted as
  the tail or a fresh one is appended together with a repeated last prefix sum. The
  parameter \<open>segTotalStorageSize\<close> is the segments' virtual \<^verbatim>\<open>totalStorageSize()\<close>.
\<close>

definition openTable_segments ::
  "(segment \<Rightarrow> int) \<Rightarrow> segment list \<Rightarrow> segment list \<Rightarrow> table \<Rightarrow> error + table" where
  "openTable_segments segTotalStorageSize roSegs wrSegs t =
     (if m_segments t \<noteq> [] then Inl InvalidArgument
      else
        (case fold (\<lambda>seg (rowNum, segs, rnv).
                      (rowNum + seg_numDataRows seg, segs @ [seg],
                       rnv @ [rowNum + seg_numDataRows seg]))
                (roSegs @ wrSegs) (0, m_segments t, m_rowNumVec t) of
           (rowNum, segs, rnv) \<Rightarrow>
             (if wrSegs \<noteq> [] \<and> segTotalStorageSize (last segs) < m_maxWrSegSize t then
                Inr (t\<lparr>m_segments := segs, m_rowNumVec := rnv\<rparr>)
              else
                Inr (t\<lparr>m_segments := segs @ [createWritableSegment (getIndexNum t)],
                       m_rowNumVec := rnv @ [rowNum]\<rparr>))))"

subsection \<open>Row-id arithmetic and reads\<close>

text \<open>
  Modelled from the spec: \<^verbatim>\<open>upper_bound_0(data, size, key)\<close> belongs to the nark utility
  headers, which are not among the sources; the spec uses it to locate the owning segment
  of an id. It is the usual binary search for the first position whose element is
  greater than the key.
\<close>

function upper_bound_n :: "int list \<Rightarrow> nat \<Rightarrow> nat \<Rightarrow> int \<Rightarrow> nat" where
  "upper_bound_n a lo hi k =
     (if lo < hi then
        (if \<not> (k < a ! ((lo + hi) div 2)) then upper_bound_n a (Suc ((lo + hi) div 2)) hi k
         else upper_bound_n a lo ((lo + hi) div 2) k)
      else lo)"
  by pat_completeness auto
termination
  by (relation "measure (\<lambda>(a, lo, hi, k). hi - lo)") auto

declare upper_bound_n.simps [simp del]

definition upper_bound_0 :: "int list \<Rightarrow> int \<Rightarrow> nat" where
  "upper_bound_0 a k = upper_bound_n a 0 (length a) k"

text \<open>A segment's \<^verbatim>\<open>getValue(subId)\<close>: the stored row, \<open>OutOfRange\<close> for an id outside the
  store or for a row that was physically removed.\<close>

definition seg_getValue :: "segment \<Rightarrow> int \<Rightarrow> error + row" where
  "seg_getValue seg subId =
     (if 0 \<le> subId \<and> subId < int (length (m_store seg)) then
        (case m_store seg ! nat subId of None \<Rightarrow> Inl OutOfRange | Some r \<Rightarrow> Inr r)
      else Inl OutOfRange)"

definition getValue :: "int \<Rightarrow> table \<Rightarrow> error + row" where
  "getValue rid t =
     bindE (vec_at (m_rowNumVec t) (int (upper_bound_0 (m_rowNumVec t) rid) - 1)) (\<lambda>baseId.
     bindE (vec_at (m_segments t) (int (upper_bound_0 (m_rowNumVec t) rid) - 1)) (\<lambda>seg.
       seg_getValue seg (rid - baseId)))"

definition numDataRows :: "table \<Rightarrow> error + int" where
  "numDataRows t =
     bindE (vec_back (m_rowNumVec t)) (\<lambda>b.
     bindE (wrSeg t) (\<lambda>w. Inr (b + seg_numDataRows w)))"

text \<open>
  totalStorageSize: the loop over the segments sits inside a loop over the indexes
  (both counters are called \<open>i\<close>; the inner one shadows the outer). The segments' virtual
  \<^verbatim>\<open>dataStorageSize()\<close> and \<^verbatim>\<open>totalStorageSize()\<close> are parameters.
\<close>

definition totalStorageSize ::
  "(segment \<Rightarrow> int) \<Rightarrow> (segment \<Rightarrow> int) \<Rightarrow> table \<Rightarrow> error + int" where
  "totalStorageSize segDataStorageSize segTotalStorageSize t =
     bindE (wrSeg t) (\<lambda>w.
       Inr (fold (\<lambda>i size0. fold (\<lambda>seg size1. size1 + segTotalStorageSize seg)
                                 (m_segments t) size0)
              [0 ..< getIndexNum t]
              (m_readonlyDataMemSize t + segDataStorageSize w)
            + segTotalStorageSize w))"

subsection \<open>The insert path\<close>

definition maybeCreateNewSegment :: "(segment \<Rightarrow> int) \<Rightarrow> table \<Rightarrow> error + table" where
  "maybeCreateNewSegment segDataStorageSize t =
     bindE (wrSeg t) (\<lambda>w.
       if segDataStorageSize w \<ge> m_maxWrSegSize t then
         (if length (m_segments t) = m_segments_capacity t then Inl InvalidArgument
          else
            bindE (vec_back (m_rowNumVec t)) (\<lambda>newMaxRowNum.
              Inr (t\<lparr>m_rowNumVec := m_rowNumVec t @ [newMaxRowNum],
                     m_segments := m_segments t @ [createWritableSegment (getIndexNum t)]\<rparr>)))
       else Inr t)"

text \<open>The index synchronisation loop of insertRowImpl: every index of the tail receives
  the row's key for that index under the tail-local sub id. \<open>getIndexKey i row\<close> stands for
  \<^verbatim>\<open>parseRow\<close> followed by \<^verbatim>\<open>getIndexKey(i, cols, &key)\<close>.\<close>

definition index_insert_all ::
  "(nat \<Rightarrow> row \<Rightarrow> key) \<Rightarrow> row \<Rightarrow> int \<Rightarrow> (key \<times> int) list list \<Rightarrow> (key \<times> int) list list" where
  "index_insert_all getIndexKey row subId indices =
     map (\<lambda>(i, ix). ix @ [(getIndexKey i row, subId)]) (zip [0 ..< length indices] indices)"

definition insertRowImpl ::
  "(segment \<Rightarrow> int) \<Rightarrow> (nat \<Rightarrow> row \<Rightarrow> key) \<Rightarrow> row \<Rightarrow> bool \<Rightarrow> table
   \<Rightarrow> error + (int \<times> table)" where
  "insertRowImpl segDataStorageSize getIndexKey row syncIndex t0 =
     bindE (maybeCreateNewSegment segDataStorageSize t0) (\<lambda>t.
     bindE (wrSeg t) (\<lambda>w.
     bindE
       (if m_deletedWrIdSet t = [] \<or> 0 < m_tableScanningRefCount t then
          bindE (vec_set_back (m_rowNumVec t) (int (length (m_store w)))) (\<lambda>rnv.
            Inr (int (length (m_store w)),
                 w\<lparr>m_store := m_store w @ [Some row], m_isDel := m_isDel w @ [False]\<rparr>,
                 t\<lparr>m_rowNumVec := rnv\<rparr>))
        else
          bindE (vec_set (m_store w) (last (m_deletedWrIdSet t)) (Some row)) (\<lambda>st.
          bindE (vec_set (m_isDel w) (last (m_deletedWrIdSet t)) False) (\<lambda>del.
            Inr (last (m_deletedWrIdSet t),
                 w\<lparr>m_store := st, m_isDel := del\<rparr>,
                 t\<lparr>m_deletedWrIdSet := butlast (m_deletedWrIdSet t)\<rparr>))))
       (\<lambda>(subId, w1, t1).
     bindE (set_wrSeg
              (if syncIndex
               then w1\<lparr>m_indices := index_insert_all getIndexKey row subId (m_indices w1)\<rparr>
               else w1) t1) (\<lambda>t2.
     bindE (vec_at (m_rowNumVec t2) (int (length (m_rowNumVec t2)) - 2)) (\<lambda>wrBaseId.
       Inr (wrBaseId + subId, t2))))))"

definition insertRow ::
  "(segment \<Rightarrow> int) \<Rightarrow> (nat \<Rightarrow> row \<Rightarrow> key) \<Rightarrow> row \<Rightarrow> bool \<Rightarrow> table
   \<Rightarrow> error + (int \<times> table)" where
  "insertRow = insertRowImpl"

subsection \<open>replaceRow and removeRow\<close>

text \<open>The index maintenance of replaceRow's tail branch: where the old and the new key
  of an index differ, the old entry is removed and the new one inserted. The new key is
  computed from the context's scratch buffer \<^verbatim>\<open>ttx.row2\<close> (the source parses \<^verbatim>\<open>newrow\<close>,
  a reference to that buffer, not the \<^verbatim>\<open>row\<close> argument).\<close>

definition index_replace_keys ::
  "(nat \<Rightarrow> row \<Rightarrow> key) \<Rightarrow> row \<Rightarrow> row \<Rightarrow> int \<Rightarrow> (key \<times> int) list list
   \<Rightarrow> (key \<times> int) list list" where
  "index_replace_keys getIndexKey oldrow newrow subId indices =
     map (\<lambda>(i, ix).
            if getIndexKey i oldrow = getIndexKey i newrow then ix
            else remove1 (getIndexKey i oldrow, subId) ix @ [(getIndexKey i newrow, subId)])
         (zip [0 ..< length indices] indices)"

definition replaceRow ::
  "(segment \<Rightarrow> int) \<Rightarrow> (nat \<Rightarrow> row \<Rightarrow> key) \<Rightarrow> row \<Rightarrow> int \<Rightarrow> row \<Rightarrow> bool \<Rightarrow> table
   \<Rightarrow> error + (int \<times> table)" where
  "replaceRow segDataStorageSize getIndexKey ttx_row2 rid row syncIndex t =
     bindE (vec_at (m_rowNumVec t) (int (upper_bound_0 (m_rowNumVec t) rid) - 1)) (\<lambda>baseId.
     bindE (wrSeg t) (\<lambda>w.
       if int (upper_bound_0 (m_rowNumVec t) rid) = int (length (m_rowNumVec t)) - 1 then
         bindE (if syncIndex then
                  bindE (seg_getValue w (rid - baseId)) (\<lambda>oldrow.
                    Inr (w\<lparr>m_indices :=
                           index_replace_keys getIndexKey oldrow ttx_row2 (rid - baseId)
                             (m_indices w)\<rparr>))
                else Inr w) (\<lambda>w1.
         bindE (vec_set (m_store w1) (rid - baseId) (Some row)) (\<lambda>st.
         bindE (set_wrSeg (w1\<lparr>m_store := st\<rparr>) t) (\<lambda>t1.
           Inr (rid, t1))))
       else
         bindE (vec_set (m_isDel w) (rid - baseId) True) (\<lambda>del.
         bindE (set_wrSeg (w\<lparr>m_isDel := del\<rparr>) t) (\<lambda>t1.
           insertRowImpl segDataStorageSize getIndexKey row syncIndex t1))))"

text \<open>removeRow's index loop calls \<^verbatim>\<open>wrIndex->remove(key, ctx)\<close> with the key alone.\<close>

definition index_remove_keys ::
  "(nat \<Rightarrow> row \<Rightarrow> key) \<Rightarrow> row \<Rightarrow> (key \<times> int) list list \<Rightarrow> (key \<times> int) list list" where
  "index_remove_keys getIndexKey row indices =
     map (\<lambda>(i, ix). filter (\<lambda>(k, sub). k \<noteq> getIndexKey i row) ix)
         (zip [0 ..< length indices] indices)"

definition removeRow ::
  "(nat \<Rightarrow> row \<Rightarrow> key) \<Rightarrow> int \<Rightarrow> bool \<Rightarrow> table \<Rightarrow> error + table" where
  "removeRow getIndexKey rid syncIndex t =
     bindE (vec_at (m_rowNumVec t) (int (upper_bound_0 (m_rowNumVec t) rid) - 1)) (\<lambda>baseId.
     bindE (wrSeg t) (\<lambda>w.
       if upper_bound_0 (m_rowNumVec t) rid = length (m_rowNumVec t) then
         bindE (if syncIndex then
                  bindE (seg_getValue w (rid - baseId)) (\<lambda>row.
                    Inr (w\<lparr>m_indices := index_remove_keys getIndexKey row (m_indices w)\<rparr>))
                else Inr w) (\<lambda>w1.
         bindE (vec_set (m_store w1) (rid - baseId) None) (\<lambda>st.
           set_wrSeg (w1\<lparr>m_store := st\<rparr>) t))
       else
         bindE (vec_set (m_isDel w) (rid - baseId) True) (\<lambda>del.
           set_wrSeg (w\<lparr>m_isDel := del\<rparr>) t)))"

subsection \<open>indexInsert, indexRemove, indexReplace\<close>

definition indexInsert :: "nat \<Rightarrow> key \<Rightarrow> int \<Rightarrow> table \<Rightarrow> error + table" where
  "indexInsert indexId indexKey rid t =
     (if indexId \<ge> length (m_indexSchemaSet t) then Inl InvalidArgument
      else
        bindE (numDataRows t) (\<lambda>minWrRowNum.
        bindE (wrSeg t) (\<lambda>w.
          if rid < minWrRowNum then Inl InvalidArgument
          else
            bindE (vec_at (m_indices w) (int indexId)) (\<lambda>ix.
            bindE (vec_set (m_indices w) (int indexId) (ix @ [(indexKey, rid - minWrRowNum)]))
              (\<lambda>ixs. set_wrSeg (w\<lparr>m_indices := ixs\<rparr>) t)))))"

definition indexRemove :: "nat \<Rightarrow> key \<Rightarrow> int \<Rightarrow> table \<Rightarrow> error + table" where
  "indexRemove indexId indexKey rid t =
     (if indexId \<ge> length (m_indexSchemaSet t) then Inl InvalidArgument
      else
        bindE (numDataRows t) (\<lambda>minWrRowNum.
        bindE (wrSeg t) (\<lambda>w.
          if rid < minWrRowNum then Inl InvalidArgument
          else
            bindE (vec_at (m_indices w) (int indexId)) (\<lambda>ix.
            bindE (vec_set (m_indices w) (int indexId)
                     (remove1 (indexKey, rid - minWrRowNum) ix))
              (\<lambda>ixs. set_wrSeg (w\<lparr>m_indices := ixs\<rparr>) t)))))"

definition indexReplace :: "nat \<Rightarrow> key \<Rightarrow> int \<Rightarrow> int \<Rightarrow> table \<Rightarrow> error + table" where
  "indexReplace indexId indexKey oldId newId t =
     (if indexId \<ge> length (m_indexSchemaSet t) then Inl InvalidArgument
      else if oldId = newId then Inr t
      else
        bindE (numDataRows t) (\<lambda>minWrRowNum.
        bindE (wrSeg t) (\<lambda>w.
          if oldId < minWrRowNum then Inl InvalidArgument
          else if newId < minWrRowNum then Inl InvalidArgument
          else
            bindE (vec_at (m_indices w) (int indexId)) (\<lambda>ix.
            bindE (vec_set (m_indices w) (int indexId)
                     (map (\<lambda>(k, sub).
                             if k = indexKey \<and> sub = oldId - minWrRowNum
                             then (k, newId - minWrRowNum) else (k, sub)) ix))
              (\<lambda>ixs. set_wrSeg (w\<lparr>m_indices := ixs\<rparr>) t)))))"

subsection \<open>Example tables\<close>

text \<open>
  States used to run the operations: a table whose metadata names the row schema
  \<open>(a, b)\<close> and one index on \<open>a\<close>; a read-only segment of two rows; a writable segment
  of one row; and the three tables openTable builds from them. The storage size of a
  segment is taken to be the number of bytes of its stored rows, and the index key of a
  row the row itself.
\<close>

definition store_bytes :: "segment \<Rightarrow> int" where
  "store_bytes s =
     int (sum_list (map (\<lambda>r. case r of None \<Rightarrow> 0 | Some x \<Rightarrow> length x) (m_store s)))"

definition whole_row_key :: "nat \<Rightarrow> row \<Rightarrow> key" where
  "whole_row_key i r = r"

definition table_schema_example :: table where
  "table_schema_example =
     CompositeTable\<lparr> m_rowSchema := [''a'', ''b''], m_indexSchemaSet := [[''a'']],
                     m_indexProjects := [[0]], m_nonIndexRowSchema := [''b''] \<rparr>"

definition frozen_two_rows :: segment where
  "frozen_two_rows =
     \<lparr> m_isDel = [False, False], m_store = [Some ''r0'', Some ''r1''],
       m_indices = [[(''r0'', 0), (''r1'', 1)]], m_writable = False \<rparr>"

definition tail_one_row :: segment where
  "tail_one_row =
     \<lparr> m_isDel = [False], m_store = [Some ''r2''],
       m_indices = [[(''r2'', 0)]], m_writable = True \<rparr>"

definition table_opened_empty :: table where
  "table_opened_empty =
     table_schema_example\<lparr> m_segments := [createWritableSegment 1], m_rowNumVec := [0, 0] \<rparr>"

definition table_opened_rd :: table where
  "table_opened_rd =
     table_schema_example\<lparr> m_segments := [frozen_two_rows, createWritableSegment 1],
                           m_rowNumVec := [0, 2, 2] \<rparr>"

definition table_opened_rd_wr :: table where
  "table_opened_rd_wr =
     table_schema_example\<lparr> m_segments := [frozen_two_rows, tail_one_row],
                           m_rowNumVec := [0, 2, 3] \<rparr>"

section \<open>Segments (src/src/terark/db/db\_segment.cpp)\<close>

type_synonym bytes = string

text \<open>
  A \<^verbatim>\<open>ReadableStore\<close> as far as the segment code uses it: the records by physical id.
  \<open>NoStore\<close> is a null pointer in \<^verbatim>\<open>m_colgroups\<close>. \<^verbatim>\<open>MultiPartStore\<close> is declared outside
  the sources: its records are those of its parts in order.
\<close>

datatype store = NoStore | PlainStore "bytes list" | MultiPartStore "bytes list list"

text \<open>
  A \<^verbatim>\<open>Schema\<close> as far as the segment code consults it: the parent (row) column of each of
  its columns (\<^verbatim>\<open>parentColumnId(j)\<close>), the projection mask \<^verbatim>\<open>m_keepCols\<close>,
  \<^verbatim>\<open>getColumnMeta(j).isInteger()\<close> per column, \<^verbatim>\<open>getFixedRowLen()\<close> (\<open>0\<close> when a column
  has variable length), \<^verbatim>\<open>should_use_FixedLenStore()\<close>, \<^verbatim>\<open>m_dictZipLocalMatch\<close> and
  \<^verbatim>\<open>m_dictZipSampleRatio\<close>.

  The encoding of records is the schema's business and is not among the sources, so a
  schema carries it as two functions: \<open>m_columnExtents buf start\<close> gives position and
  length, in \<open>buf\<close>, of every column of the record that starts at \<open>start\<close> and runs to
  the end of \<open>buf\<close> (what \<^verbatim>\<open>parseRowAppend(buf, start, cols)\<close> appends to \<open>cols\<close>), and
  \<open>m_encode\<close> turns the values of the columns into the record (\<^verbatim>\<open>combineRow\<close>,
  \<^verbatim>\<open>selectParent\<close>).
\<close>

record Schema =
  m_parents :: "nat list"
  m_keepCols :: "bool list"
  m_isInteger :: "bool list"
  m_fixedRowLen :: nat
  m_useFixedLenStore :: bool
  m_dictZipLocalMatch :: bool
  m_dictZipSampleRatio :: real
  m_columnExtents :: "bytes \<Rightarrow> nat \<Rightarrow> (nat \<times> nat) list"
  m_encode :: "bytes list \<Rightarrow> bytes"

text \<open>
  The part of \<^verbatim>\<open>SchemaConfig\<close> the segment code consults: the row schema, the column group
  schemas (the first \<open>indexNum\<close> are the index column groups), the in-place updatable
  column groups, the write store's schema \<^verbatim>\<open>m_wrtSchema\<close> and
  \<^verbatim>\<open>m_compressingWorkMemSize\<close>.
\<close>

record SchemaConfig =
  m_rowSchema :: Schema
  m_colgroupSchemaSet :: "Schema list"
  indexNum :: nat
  m_updatableColgroups :: "nat list"
  m_wrtSchema :: Schema
  m_compressingWorkMemSize :: nat

text \<open>
  \<^verbatim>\<open>ReadableSegment\<close> with the fields of its two subclasses. \<open>m_colgroups\<close> holds the column
  group stores (an index column group is represented by the store of its index); the
  write store of a writable segment maps a sub id to the row projected to
  \<^verbatim>\<open>m_wrtSchema\<close>, \<open>None\<close> where the row was physically removed. \<^verbatim>\<open>m_updateList\<close> is a
  \<^verbatim>\<open>valvec<uint32_t>\<close>: its capacity is kept beside it because addtoUpdateList reads
  \<^verbatim>\<open>unused()\<close>.
\<close>

record ReadableSegment = segment_core +
  m_isPurged :: "bool list"
  m_delcnt :: nat
  m_isFreezed :: bool
  m_bookUpdates :: bool
  m_withPurgeBits :: bool
  m_updateList :: "nat list"
  m_updateList_capacity :: nat
  m_updateBits :: "bool list"
  m_colgroups :: "store list"
  m_wrtStore :: "bytes option list"

text \<open>The constructor \<^verbatim>\<open>ReadableSegment::ReadableSegment()\<close>, with empty containers.\<close>

definition ReadableSegment_new :: ReadableSegment where
  "ReadableSegment_new =
     \<lparr> m_isDel = [], m_isPurged = [], m_delcnt = 0, m_isFreezed = False,
       m_bookUpdates = False, m_withPurgeBits = False, m_updateList = [],
       m_updateList_capacity = 0, m_updateBits = [], m_colgroups = [], m_wrtStore = [] \<rparr>"

text \<open>Two small segments used to exercise the theorems below: a read-only segment of four
  rows whose row 1 was purged and whose row 2 was deleted later, and a frozen segment of
  three rows with journaling switched on as convFrom does it (1024 reserved list entries).\<close>

definition purged_segment_example :: ReadableSegment where
  "purged_segment_example =
     ReadableSegment_new\<lparr> m_isDel := [False, True, True, False],
                          m_isPurged := [False, True, False, False],
                          m_delcnt := 2, m_isFreezed := True, m_withPurgeBits := True \<rparr>"

definition journaling_segment_example :: ReadableSegment where
  "journaling_segment_example =
     ReadableSegment_new\<lparr> m_isDel := [False, False, False],
                          m_isFreezed := True, m_bookUpdates := True,
                          m_updateList_capacity := 1024 \<rparr>"

subsection \<open>Bitmaps\<close>

text \<open>
  Modelled from the spec: \<^verbatim>\<open>febitvec\<close> and \<^verbatim>\<open>rank_select_se\<close> come from the terark base
  library, which is not among the sources. \<open>rank0 bits i\<close> counts the zero bits before
  position \<open>i\<close>, \<open>select0 bits k\<close> is the position of the zero bit number \<open>k\<close> (from 0),
  \<open>max_rank0\<close> the number of zero bits, \<open>popcnt\<close> the number of one bits,
  \<open>beg_end_set1 bits b e\<close> sets the positions \<open>b \<le> i < e\<close>, and \<open>zero_seq_len bits i\<close>
  is the length of the run of zero bits starting at \<open>i\<close>.
\<close>

definition rank0 :: "bool list \<Rightarrow> nat \<Rightarrow> nat" where
  "rank0 bits i = length (filter Not (take i bits))"

definition max_rank0 :: "bool list \<Rightarrow> nat" where
  "max_rank0 bits = length (filter Not bits)"

definition popcnt :: "bool list \<Rightarrow> nat" where
  "popcnt bits = length (filter id bits)"

fun select0 :: "bool list \<Rightarrow> nat \<Rightarrow> nat option" where
  "select0 [] k = None"
| "select0 (b # bs) k =
     (if b then map_option Suc (select0 bs k)
      else (case k of 0 \<Rightarrow> Some 0 | Suc k' \<Rightarrow> map_option Suc (select0 bs k')))"

definition beg_end_set1 :: "bool list \<Rightarrow> int \<Rightarrow> int \<Rightarrow> bool list" where
  "beg_end_set1 bits b e = map (\<lambda>(i, x). x \<or> (b \<le> int i \<and> int i < e)) (zip [0 ..< length bits] bits)"

definition zero_seq_len :: "bool list \<Rightarrow> nat \<Rightarrow> nat" where
  "zero_seq_len bits i = length (takeWhile Not (drop i bits))"


subsection \<open>Logical and physical ids\<close>

definition getPhysicRows :: "'a ReadableSegment_scheme \<Rightarrow> nat" where
  "getPhysicRows s =
     (if m_isPurged s \<noteq> [] then max_rank0 (m_isPurged s) else length (m_isDel s))"

definition getPhysicId :: "'a ReadableSegment_scheme \<Rightarrow> nat \<Rightarrow> nat" where
  "getPhysicId s logicId =
     (if m_isPurged s = [] then logicId else rank0 (m_isPurged s) logicId)"

definition getLogicId :: "'a ReadableSegment_scheme \<Rightarrow> nat \<Rightarrow> error + nat" where
  "getLogicId s physicId =
     (if m_isPurged s = [] then Inr physicId
      else (case select0 (m_isPurged s) physicId of
              None \<Rightarrow> Inl OutOfBounds
            | Some logicId \<Rightarrow> Inr logicId))"

subsection \<open>The pending-update journal\<close>

text \<open>\<^verbatim>\<open>terark_bit_set1\<close> on the raw words of a bitmap, for each id of a list in turn; a
  position outside the bitmap is \<open>OutOfBounds\<close>.\<close>

fun bits_set_all :: "bool list \<Rightarrow> nat list \<Rightarrow> error + bool list" where
  "bits_set_all bits [] = Inr bits"
| "bits_set_all bits (i # ids) =
     (if i < length bits then bits_set_all (bits[i := True]) ids else Inl OutOfBounds)"

text \<open>
  addtoUpdateList. \<open>grow\<close> is the capacity a full \<^verbatim>\<open>valvec\<close> reallocates to on
  \<^verbatim>\<open>push_back\<close> (the growth policy is the library's). An id is stored in the list as a
  \<^verbatim>\<open>uint32_t\<close>, hence modulo \<open>2^32\<close>. \<^verbatim>\<open>valvec::clear\<close> releases the memory, so the
  capacity is \<open>0\<close> afterwards.
\<close>

definition addtoUpdateList ::
  "(nat \<Rightarrow> nat) \<Rightarrow> nat \<Rightarrow> ReadableSegment \<Rightarrow> error + ReadableSegment" where
  "addtoUpdateList grow logicId s =
     (if \<not> m_bookUpdates s then Inr s
      else if (length (m_updateList s) < m_updateList_capacity s
               \<or> length (m_updateList s) < length (m_isDel s) div 256)
              \<and> m_updateBits s = [] then
        Inr (s\<lparr>m_updateList := m_updateList s @ [logicId mod 2 ^ 32],
               m_updateList_capacity :=
                 (if length (m_updateList s) < m_updateList_capacity s
                  then m_updateList_capacity s
                  else grow (m_updateList_capacity s))\<rparr>)
      else if m_updateBits s \<noteq> [] then
        bindE (vec_set (m_updateBits s) (int logicId) True) (\<lambda>bits.
          Inr (s\<lparr>m_updateBits := bits\<rparr>))
      else
        bindE (bits_set_all (replicate (length (m_isDel s) + 1) False)
                 (m_updateList s @ [logicId, length (m_isDel s)])) (\<lambda>bits.
          Inr (s\<lparr>m_updateBits := bits, m_updateList := [], m_updateList_capacity := 0\<rparr>)))"



subsection \<open>Exact index search on a read-only segment\<close>

text \<open>A loop over a list whose body may fail.\<close>

fun foldE :: "('a \<Rightarrow> 's \<Rightarrow> error + 's) \<Rightarrow> 'a list \<Rightarrow> 's \<Rightarrow> error + 's" where
  "foldE f [] s = Inr s"
| "foldE f (x # xs) s = bindE (f x s) (foldE f xs)"

text \<open>
  The logical id behind an element of \<^verbatim>\<open>recIdvecData\<close>: without purge bits the element
  is a logical id already; with purge bits it is a physical id,
  \<^verbatim>\<open>size_t physicId = (size_t)recIdvecData[k]\<close>, translated by \<^verbatim>\<open>m_isPurged.select0\<close>.
\<close>

definition searchHitLogicId :: "'a ReadableSegment_scheme \<Rightarrow> int \<Rightarrow> error + int" where
  "searchHitLogicId s x =
     (if m_isPurged s = [] then Inr x
      else if 0 \<le> x then
        (case select0 (m_isPurged s) (nat x) of
           None \<Rightarrow> Inl OutOfBounds
         | Some logicId \<Rightarrow> Inr (int logicId))
      else Inl OutOfBounds)"

text \<open>
  One round of the filter loops of indexSearchExactAppend on the array
  \<^verbatim>\<open>recIdvecData\<close> and the write position \<^verbatim>\<open>newsize\<close>: the id is kept, written at
  \<^verbatim>\<open>newsize\<close>, when its \<^verbatim>\<open>m_isDel\<close> bit is clear.
\<close>

definition searchFilterStep ::
  "'a ReadableSegment_scheme \<Rightarrow> nat \<Rightarrow> int list \<times> nat \<Rightarrow> error + (int list \<times> nat)" where
  "searchFilterStep s k st =
     (case st of (recIdvecData, newsize) \<Rightarrow>
        bindE (vec_at recIdvecData (int k)) (\<lambda>x.
        bindE (searchHitLogicId s x) (\<lambda>logicId.
        bindE (vec_at (m_isDel s) logicId) (\<lambda>del.
          if \<not> del then
            bindE (vec_set recIdvecData (int newsize) logicId) (\<lambda>d. Inr (d, Suc newsize))
          else Inr (recIdvecData, newsize)))))"

text \<open>The logical id of an element, \<open>0\<close> where the translation fails.\<close>

definition hit_lid :: "'a ReadableSegment_scheme \<Rightarrow> int \<Rightarrow> nat" where
  "hit_lid s x = (case searchHitLogicId s x of Inl e \<Rightarrow> 0 | Inr l \<Rightarrow> nat l)"

text \<open>\<open>hits\<close> is what the index's own \<^verbatim>\<open>searchExactAppend\<close> appends to \<^verbatim>\<open>recIdvec\<close>.\<close>

definition indexSearchExactAppend ::
  "int list \<Rightarrow> int list \<Rightarrow> 'a ReadableSegment_scheme \<Rightarrow> error + int list" where
  "indexSearchExactAppend hits recIdvec s =
     bindE (foldE (searchFilterStep s) [length recIdvec ..< length (recIdvec @ hits)]
              (recIdvec @ hits, length recIdvec)) (\<lambda>(recIdvecData, newsize).
       Inr (take newsize recIdvecData))"

subsection \<open>The forward store iterator of a read-only segment\<close>









section \<open>Reading rows and converting a frozen writable segment\<close>

subsection \<open>Column vectors\<close>

text \<open>
  A \<^verbatim>\<open>ColumnVec\<close>: the buffer \<^verbatim>\<open>m_base\<close> points to and, per column, its position and length
  in that buffer. The code copies elements from one vector to another and sets
  \<^verbatim>\<open>cols2.m_base\<close> on its own (\<^verbatim>\<open>cols2.m_base = wrtBuf.data()\<close>,
  \<^verbatim>\<open>pCols2[j] = pCols1[i]\<close>), so an element is relative to the base. An element made
  by \<^verbatim>\<open>resize_fill\<close> or \<^verbatim>\<open>grow\<close> is the empty column \<open>(0, 0)\<close>.
\<close>

record ColumnVec =
  m_base :: bytes
  m_cols :: "(nat \<times> nat) list"

definition ColumnVec_new :: ColumnVec where
  "ColumnVec_new = \<lparr> m_base = [], m_cols = [] \<rparr>"

definition erase_all :: "ColumnVec \<Rightarrow> ColumnVec" where
  "erase_all cols = cols\<lparr>m_cols := []\<rparr>"

definition grow_cols :: "ColumnVec \<Rightarrow> nat \<Rightarrow> ColumnVec" where
  "grow_cols cols n = cols\<lparr>m_cols := m_cols cols @ replicate n (0, 0)\<rparr>"

definition Schema_columnNum :: "Schema \<Rightarrow> nat" where
  "Schema_columnNum schema = length (m_parents schema)"

definition columnNum :: "SchemaConfig \<Rightarrow> nat" where
  "columnNum sc = Schema_columnNum (m_rowSchema sc)"

text \<open>\<^verbatim>\<open>parseRowAppend\<close> appends the columns of the record at \<open>start\<close> to the vector and
  leaves the columns already there; \<^verbatim>\<open>parseRow\<close> starts from an empty vector.\<close>

definition parseRowAppend :: "Schema \<Rightarrow> bytes \<Rightarrow> nat \<Rightarrow> ColumnVec \<Rightarrow> ColumnVec" where
  "parseRowAppend schema buf start cols =
     \<lparr> m_base = buf, m_cols = m_cols cols @ m_columnExtents schema buf start \<rparr>"

definition parseRow :: "Schema \<Rightarrow> bytes \<Rightarrow> ColumnVec" where
  "parseRow schema buf = parseRowAppend schema buf 0 ColumnVec_new"

text \<open>The bytes of a column: \<^verbatim>\<open>fstring(m_base + pos, len)\<close>. Reading past the end of the
  buffer is \<open>OutOfBounds\<close>.\<close>

definition column_bytes :: "bytes \<Rightarrow> nat \<times> nat \<Rightarrow> error + bytes" where
  "column_bytes base e =
     (case e of (pos, len) \<Rightarrow>
        if pos + len \<le> length base then Inr (take len (drop pos base)) else Inl OutOfBounds)"

fun columns_bytes :: "bytes \<Rightarrow> (nat \<times> nat) list \<Rightarrow> error + bytes list" where
  "columns_bytes base [] = Inr []"
| "columns_bytes base (e # es) =
     bindE (column_bytes base e) (\<lambda>c.
     bindE (columns_bytes base es) (\<lambda>cs. Inr (c # cs)))"

definition combineRow :: "Schema \<Rightarrow> ColumnVec \<Rightarrow> error + bytes" where
  "combineRow schema cols =
     bindE (columns_bytes (m_base cols) (m_cols cols)) (\<lambda>cs. Inr (m_encode schema cs))"

fun select_columns :: "nat list \<Rightarrow> ColumnVec \<Rightarrow> error + bytes list" where
  "select_columns [] columns = Inr []"
| "select_columns (p # ps) columns =
     bindE (vec_at (m_cols columns) (int p)) (\<lambda>e.
     bindE (column_bytes (m_base columns) e) (\<lambda>c.
     bindE (select_columns ps columns) (\<lambda>cs. Inr (c # cs))))"

definition selectParent :: "Schema \<Rightarrow> ColumnVec \<Rightarrow> error + bytes" where
  "selectParent schema columns =
     bindE (select_columns (m_parents schema) columns) (\<lambda>cs. Inr (m_encode schema cs))"

definition getColgroupSchema :: "SchemaConfig \<Rightarrow> nat \<Rightarrow> error + Schema" where
  "getColgroupSchema sc i = vec_at (m_colgroupSchemaSet sc) (int i)"

subsection \<open>Stores\<close>

definition store_records :: "store \<Rightarrow> error + bytes list" where
  "store_records st =
     (case st of
        NoStore \<Rightarrow> Inl OutOfBounds
      | PlainStore recs \<Rightarrow> Inr recs
      | MultiPartStore parts \<Rightarrow> Inr (concat parts))"

text \<open>A store's \<^verbatim>\<open>getValueAppend(id)\<close>: the record, which the caller appends to its buffer.\<close>

definition store_getValue :: "store \<Rightarrow> nat \<Rightarrow> error + bytes" where
  "store_getValue st rid =
     bindE (store_records st) (\<lambda>recs.
       if rid < length recs then Inr (recs ! rid) else Inl OutOfRange)"

subsection \<open>ReadonlySegment: getValueByPhysicId\<close>

text \<open>First loop, on \<^verbatim>\<open>ctx->buf1\<close> and \<^verbatim>\<open>ctx->cols1\<close>: the record of every column group with a
  kept column is appended to the buffer and parsed from where it starts; other column
  groups contribute empty columns.\<close>

definition readColgroup ::
  "SchemaConfig \<Rightarrow> 'a ReadableSegment_scheme \<Rightarrow> nat \<Rightarrow> nat \<Rightarrow> bytes \<times> ColumnVec
   \<Rightarrow> error + (bytes \<times> ColumnVec)" where
  "readColgroup sc s rid i st =
     (case st of (buf1, cols1) \<Rightarrow>
        bindE (getColgroupSchema sc i) (\<lambda>iSchema.
          if True \<in> set (m_keepCols iSchema) then
            bindE (vec_at (m_colgroups s) (int i)) (\<lambda>cg.
            bindE (store_getValue cg rid) (\<lambda>r.
              Inr (buf1 @ r, parseRowAppend iSchema (buf1 @ r) (length buf1) cols1)))
          else Inr (buf1, grow_cols cols1 (Schema_columnNum iSchema))))"

text \<open>Second loop, inner part: \<^verbatim>\<open>cols2.m_cols[parentColumnId(j)] = cols1.m_cols[baseColumnId + j]\<close>
  for the kept columns of one column group.\<close>

definition scatterKept ::
  "Schema \<Rightarrow> (nat \<times> nat) list \<Rightarrow> nat \<Rightarrow> (nat \<times> nat) list \<Rightarrow> error + (nat \<times> nat) list" where
  "scatterKept iSchema cols1 base cols2 =
     foldE (\<lambda>j c2.
              bindE (vec_at (m_keepCols iSchema) (int j)) (\<lambda>kept.
                if kept then
                  bindE (vec_at cols1 (int (base + j))) (\<lambda>v.
                    vec_set c2 (int (m_parents iSchema ! j)) v)
                else Inr c2))
       [0 ..< Schema_columnNum iSchema] cols2"

definition scatterColgroup ::
  "SchemaConfig \<Rightarrow> (nat \<times> nat) list \<Rightarrow> nat \<Rightarrow> (nat \<times> nat) list \<times> nat
   \<Rightarrow> error + ((nat \<times> nat) list \<times> nat)" where
  "scatterColgroup sc cols1 i st =
     (case st of (cols2, baseColumnId) \<Rightarrow>
        bindE (getColgroupSchema sc i) (\<lambda>iSchema.
        bindE (scatterKept iSchema cols1 baseColumnId cols2) (\<lambda>c2.
          Inr (c2, baseColumnId + Schema_columnNum iSchema))))"

definition getValueByPhysicId ::
  "SchemaConfig \<Rightarrow> 'a ReadableSegment_scheme \<Rightarrow> nat \<Rightarrow> error + bytes" where
  "getValueByPhysicId sc s rid =
     bindE (foldE (readColgroup sc s rid) [0 ..< length (m_colgroups s)]
              ([], erase_all ColumnVec_new)) (\<lambda>(buf1, cols1).
     bindE (foldE (scatterColgroup sc (m_cols cols1)) [0 ..< length (m_colgroups s)]
              (replicate (columnNum sc) (0, 0), 0)) (\<lambda>(cols2, baseColumnId).
       combineRow (m_rowSchema sc) \<lparr> m_base = m_base cols1, m_cols = cols2 \<rparr>))"

definition getValueByLogicId ::
  "SchemaConfig \<Rightarrow> 'a ReadableSegment_scheme \<Rightarrow> nat \<Rightarrow> error + bytes" where
  "getValueByLogicId sc s rid = getValueByPhysicId sc s (getPhysicId s rid)"

text \<open>\<^verbatim>\<open>ReadonlySegment::getValueAppend\<close> (what \<^verbatim>\<open>getValue\<close> calls on a read-only segment).\<close>

definition ReadonlySegment_getValue ::
  "SchemaConfig \<Rightarrow> 'a ReadableSegment_scheme \<Rightarrow> int \<Rightarrow> error + bytes" where
  "ReadonlySegment_getValue sc s rid =
     (if rid < 0 \<or> rid \<ge> int (length (m_isDel s)) then Inl OutOfRange
      else getValueByLogicId sc s (nat rid))"

subsection \<open>WritableSegment: getValueAppend and its iterator\<close>

definition getWrtStoreData :: "'a ReadableSegment_scheme \<Rightarrow> int \<Rightarrow> error + bytes" where
  "getWrtStoreData s subId =
     (if 0 \<le> subId \<and> subId < int (length (m_wrtStore s)) then
        (case m_wrtStore s ! nat subId of None \<Rightarrow> Inl OutOfRange | Some w \<Rightarrow> Inr w)
      else Inl OutOfRange)"

text \<open>The scatter loops of getCombineAppend have no projection mask.\<close>

definition scatterAll ::
  "Schema \<Rightarrow> (nat \<times> nat) list \<Rightarrow> nat \<Rightarrow> (nat \<times> nat) list \<Rightarrow> error + (nat \<times> nat) list" where
  "scatterAll schema cols1 base cols2 =
     foldE (\<lambda>i c2. bindE (vec_at cols1 (int (base + i))) (\<lambda>v.
                     vec_set c2 (int (m_parents schema ! i)) v))
       [0 ..< Schema_columnNum schema] cols2"

text \<open>First loop of getCombineAppend, on \<^verbatim>\<open>wrtBuf\<close> and \<^verbatim>\<open>cols1\<close>: the record of an updatable
  column group is appended to the buffer and parsed from where it starts.\<close>

definition appendUpdatable ::
  "SchemaConfig \<Rightarrow> 'a ReadableSegment_scheme \<Rightarrow> nat \<Rightarrow> nat \<Rightarrow> bytes \<times> ColumnVec
   \<Rightarrow> error + (bytes \<times> ColumnVec)" where
  "appendUpdatable sc s recId colgroupId st =
     (case st of (wrtBuf, cols1) \<Rightarrow>
        bindE (getColgroupSchema sc colgroupId) (\<lambda>schema.
        bindE (vec_at (m_colgroups s) (int colgroupId)) (\<lambda>cg.
        bindE (store_getValue cg recId) (\<lambda>r.
          Inr (wrtBuf @ r, parseRowAppend schema (wrtBuf @ r) (length wrtBuf) cols1)))))"

definition scatterUpdatable ::
  "SchemaConfig \<Rightarrow> (nat \<times> nat) list \<Rightarrow> nat \<Rightarrow> (nat \<times> nat) list \<times> nat
   \<Rightarrow> error + ((nat \<times> nat) list \<times> nat)" where
  "scatterUpdatable sc cols1 colgroupId st =
     (case st of (cols2, baseColumnIdx1) \<Rightarrow>
        bindE (getColgroupSchema sc colgroupId) (\<lambda>schema.
        bindE (scatterAll schema cols1 baseColumnIdx1 cols2) (\<lambda>c2.
          Inr (c2, baseColumnIdx1 + Schema_columnNum schema))))"

text \<open>
  getCombineAppend with the caller's \<^verbatim>\<open>wrtBuf\<close> and \<^verbatim>\<open>cols1\<close>, which it takes by reference:
  the result is the combined row and \<^verbatim>\<open>cols1\<close> as the call leaves it. \<^verbatim>\<open>cols1\<close> is only
  appended to (\<^verbatim>\<open>reserve\<close>, \<^verbatim>\<open>parseRowAppend\<close>), and the scatter loops read it from index
  \<open>0\<close>: whatever the caller left in it stays in front.
\<close>

definition getCombineAppend ::
  "SchemaConfig \<Rightarrow> 'a ReadableSegment_scheme \<Rightarrow> nat \<Rightarrow> bytes \<Rightarrow> ColumnVec
   \<Rightarrow> error + (bytes \<times> ColumnVec)" where
  "getCombineAppend sc s recId wrtBuf0 cols10 =
     bindE (foldE (appendUpdatable sc s recId) (m_updatableColgroups sc)
              (wrtBuf0, parseRowAppend (m_wrtSchema sc) wrtBuf0 0 cols10)) (\<lambda>(wrtBuf, cols1).
     bindE (scatterAll (m_wrtSchema sc) (m_cols cols1) 0
              (replicate (columnNum sc) (0, 0))) (\<lambda>c2.
     bindE (foldE (scatterUpdatable sc (m_cols cols1)) (m_updatableColgroups sc)
              (c2, Schema_columnNum (m_wrtSchema sc))) (\<lambda>(cols2, baseColumnIdx1).
     bindE (combineRow (m_rowSchema sc) \<lparr> m_base = wrtBuf, m_cols = cols2 \<rparr>) (\<lambda>val.
       Inr (val, cols1)))))"

text \<open>\<^verbatim>\<open>WritableSegment::getValueAppend\<close>: with updatable column groups, \<^verbatim>\<open>ctx->buf1\<close> and
  \<^verbatim>\<open>ctx->cols1\<close> are erased before the row is combined.\<close>

definition WritableSegment_getValue ::
  "SchemaConfig \<Rightarrow> 'a ReadableSegment_scheme \<Rightarrow> int \<Rightarrow> error + bytes" where
  "WritableSegment_getValue sc s recId =
     (if m_updatableColgroups sc = [] then getWrtStoreData s recId
      else bindE (getWrtStoreData s recId) (\<lambda>buf1.
           bindE (getCombineAppend sc s (nat recId) buf1 (erase_all ColumnVec_new))
             (\<lambda>(val, cols1). Inr val)))"

text \<open>
  \<^verbatim>\<open>WritableSegment::MyStoreIter::increment\<close>, for the row \<open>wrtBuf\<close> the write store's
  iterator hands out at id \<open>recId\<close>. \<open>cols1\<close> is the iterator's member \<^verbatim>\<open>m_cols1\<close>: increment
  erases \<^verbatim>\<open>val\<close> but not \<^verbatim>\<open>m_cols1\<close> (seekExact does), so the result carries \<^verbatim>\<open>m_cols1\<close> to
  the next call. The write store's iterator, like the iterators of the sources, replaces
  the content of the buffer it is given (\<^verbatim>\<open>m_wrtBuf\<close>). Without updatable column groups
  the iterator is the write store's own.
\<close>

definition MyStoreIter_increment ::
  "SchemaConfig \<Rightarrow> 'a ReadableSegment_scheme \<Rightarrow> nat \<Rightarrow> bytes \<Rightarrow> ColumnVec
   \<Rightarrow> error + (bytes \<times> ColumnVec)" where
  "MyStoreIter_increment sc s recId wrtBuf cols1 =
     (if m_updatableColgroups sc = [] then Inr (wrtBuf, cols1)
      else getCombineAppend sc s recId wrtBuf cols1)"

text \<open>\<^verbatim>\<open>MyStoreIter::seekExact\<close> erases \<^verbatim>\<open>m_wrtBuf\<close> and \<^verbatim>\<open>m_cols1\<close> first.\<close>

definition MyStoreIter_seekExact ::
  "SchemaConfig \<Rightarrow> 'a ReadableSegment_scheme \<Rightarrow> nat \<Rightarrow> bytes \<Rightarrow> ColumnVec
   \<Rightarrow> error + (bytes \<times> ColumnVec)" where
  "MyStoreIter_seekExact sc s recId wrtBuf cols1 =
     (if m_updatableColgroups sc = [] then Inr (wrtBuf, cols1)
      else getCombineAppend sc s recId wrtBuf (erase_all cols1))"

subsection \<open>Concurrent updates of the input segment\<close>

text \<open>
  Modelled from the spec: the table operations that change a frozen segment while it is
  being converted live in the terark version of db\_table.cpp, which is not among the
  sources. By the spec's data model, when \<^verbatim>\<open>book_updates\<close> is set every successful
  mutation of \<^verbatim>\<open>is_del\<close> or of an in-place updatable column appends the logical id to the
  journal. A mutation is therefore either the deletion of a live row or the overwrite of
  one record of an updatable column group (a fixed-length store), followed by
  addtoUpdateList; a mutation that does not apply to the segment leaves it as it is.
  Each runs atomically.
\<close>

datatype mutation = DeleteRow nat | UpdateCell nat nat bytes

fun apply_mutation ::
  "SchemaConfig \<Rightarrow> (nat \<Rightarrow> nat) \<Rightarrow> mutation \<Rightarrow> ReadableSegment \<Rightarrow> error + ReadableSegment" where
  "apply_mutation sc grow (DeleteRow i) s =
     (if i < length (m_isDel s) \<and> \<not> m_isDel s ! i then
        addtoUpdateList grow i (s\<lparr>m_isDel := (m_isDel s)[i := True], m_delcnt := Suc (m_delcnt s)\<rparr>)
      else Inr s)"
| "apply_mutation sc grow (UpdateCell i cg r) s =
     (if cg \<in> set (m_updatableColgroups sc) \<and> cg < length (m_colgroupSchemaSet sc)
         \<and> length r = m_fixedRowLen (m_colgroupSchemaSet sc ! cg)
         \<and> cg < length (m_colgroups s) \<and> i < length (m_isDel s) then
        (case m_colgroups s ! cg of
           PlainStore recs \<Rightarrow>
             if i < length recs then
               addtoUpdateList grow i
                 (s\<lparr>m_colgroups := (m_colgroups s)[cg := PlainStore (recs[i := r])]\<rparr>)
             else Inr s
         | _ \<Rightarrow> Inr s)
      else Inr s)"

definition apply_mutations ::
  "SchemaConfig \<Rightarrow> (nat \<Rightarrow> nat) \<Rightarrow> mutation list \<Rightarrow> ReadableSegment \<Rightarrow> error + ReadableSegment" where
  "apply_mutations sc grow ms s = foldE (apply_mutation sc grow) ms s"

definition hd_batch :: "mutation list list \<Rightarrow> mutation list" where
  "hd_batch envs = (case envs of [] \<Rightarrow> [] | e # es \<Rightarrow> e)"

text \<open>
  The points at which other threads get to run during a conversion: after journaling is
  switched on and before the snapshot of \<^verbatim>\<open>m_isDel\<close>; before each step of the scan over
  the input's rows; while indexes and stores are built, saved and reloaded; before each
  journal entry the first (lock-free) and second (reader-locked) drain processes; between
  the drains. The third drain and the swap run under the writer lock.
\<close>

record environment =
  env_snapshot :: "mutation list"
  env_scan :: "mutation list list"
  env_build :: "mutation list"
  env_drain1 :: "mutation list list"
  env_between12 :: "mutation list"
  env_drain2 :: "mutation list list"
  env_between23 :: "mutation list"

subsection \<open>convFrom: the scan\<close>

text \<open>\<^verbatim>\<open>TempFileList::writeColgroups\<close>: the projection of the row to each column group is
  appended to that column group's temporary store (a \<^verbatim>\<open>FixedLenStore\<close> or a
  \<^verbatim>\<open>SeqReadAppendonlyStore\<close>, here the list of its records).\<close>

definition writeColgroups ::
  "SchemaConfig \<Rightarrow> ColumnVec \<Rightarrow> bytes list list \<Rightarrow> error + bytes list list" where
  "writeColgroups sc columns tmp =
     foldE (\<lambda>i t.
              bindE (getColgroupSchema sc i) (\<lambda>schema.
              bindE (selectParent schema columns) (\<lambda>projRowBuf.
              bindE (vec_at t (int i)) (\<lambda>recs.
                vec_set t (int i) (recs @ [projRowBuf])))))
       [0 ..< length tmp] tmp"

text \<open>The local state of convFrom's first pass: the input segment, \<^verbatim>\<open>this->m_isDel\<close>, the
  temporary column group stores, \<^verbatim>\<open>newRowNum\<close>, \<^verbatim>\<open>prevId\<close>, \<^verbatim>\<open>id\<close>, and the member \<^verbatim>\<open>m_cols1\<close>
  of the iterator \<^verbatim>\<open>input->createStoreIterForward\<close> made.\<close>

record convLocals =
  cl_input :: ReadableSegment
  cl_isDel :: "bool list"
  cl_tmp :: "bytes list list"
  cl_newRowNum :: int
  cl_prevId :: int
  cl_id :: int
  cl_cols1 :: ColumnVec

text \<open>
  The loop \<^verbatim>\<open>while (iter->increment(&id, &buf) && id < logicRowNum)\<close>. The write store's
  iterator walks the write store in id order and hands out the rows that are physically
  there; the list argument is the write store with its positions. The row the segment's
  iterator returns is parsed by the row schema and written to the temporary stores.
\<close>

fun convFrom_scan ::
  "SchemaConfig \<Rightarrow> (nat \<Rightarrow> nat) \<Rightarrow> int \<Rightarrow> (nat \<times> bytes option) list \<Rightarrow> mutation list list
   \<Rightarrow> convLocals \<Rightarrow> error + convLocals" where
  "convFrom_scan sc grow logicRowNum [] envs st = Inr st"
| "convFrom_scan sc grow logicRowNum ((pos, w) # rest) envs st =
     bindE (apply_mutations sc grow (hd_batch envs) (cl_input st)) (\<lambda>inp.
       case w of
         None \<Rightarrow> convFrom_scan sc grow logicRowNum rest (tl envs) (st\<lparr>cl_input := inp\<rparr>)
       | Some wrtBuf \<Rightarrow>
           bindE (MyStoreIter_increment sc inp pos wrtBuf (cl_cols1 st)) (\<lambda>(buf, cols1).
             if int pos < logicRowNum then
               bindE (if \<not> cl_isDel st ! pos then
                        bindE (writeColgroups sc (parseRow (m_rowSchema sc) buf) (cl_tmp st))
                          (\<lambda>tmp.
                          Inr (st\<lparr>cl_input := inp, cl_id := int pos, cl_tmp := tmp,
                                 cl_newRowNum := cl_newRowNum st + 1,
                                 cl_isDel := beg_end_set1 (cl_isDel st) (cl_prevId st + 1) (int pos),
                                 cl_prevId := int pos, cl_cols1 := cols1\<rparr>))
                      else Inr (st\<lparr>cl_input := inp, cl_id := int pos, cl_cols1 := cols1\<rparr>))
                 (\<lambda>st'. convFrom_scan sc grow logicRowNum rest (tl envs) st')
             else Inr (st\<lparr>cl_input := inp, cl_id := int pos, cl_cols1 := cols1\<rparr>)))"

subsection \<open>convFrom: building the indexes and stores\<close>

text \<open>
  What the third pass calls through the segment object or outside the sources.
  \<^verbatim>\<open>buildIndex\<close>, \<^verbatim>\<open>buildStore\<close> and \<^verbatim>\<open>buildDictZipStore\<close> are virtual (\<^verbatim>\<open>derived class should
  override\<close>) and convFrom calls them on \<^verbatim>\<open>this\<close>, so the conversion takes them as given;
  the result is the records the built store holds (for an index, those of
  \<^verbatim>\<open>getReadableStore()\<close>) or the error. \<open>strVec_mem_size\<close> is \<^verbatim>\<open>SortableStrVec::mem_size\<close> of
  a vector holding the given records.
\<close>

record externals =
  strVec_mem_size :: "bytes list \<Rightarrow> nat"
  buildIndex :: "Schema \<Rightarrow> bytes list \<Rightarrow> error + bytes list"
  buildStore :: "Schema \<Rightarrow> bytes list \<Rightarrow> error + bytes list"
  buildDictZipStore :: "Schema \<Rightarrow> bytes list \<Rightarrow> error + bytes list"

text \<open>
  ReadonlySegment's own builders. \<^verbatim>\<open>buildIndex\<close> tries a \<^verbatim>\<open>ZipIntKeyIndex\<close> for a single
  integer column and falls through when its \<^verbatim>\<open>build\<close> throws, then takes a
  \<^verbatim>\<open>FixedLenKeyIndex\<close> for a fixed row length of at most \<open>16\<close>, and returns a null pointer
  otherwise. \<^verbatim>\<open>buildStore\<close> tries a \<^verbatim>\<open>ZipIntStore\<close> for a single integer column, falls back
  to a \<^verbatim>\<open>FixedLenStore\<close> when that throws, and returns a null pointer otherwise.
  \<^verbatim>\<open>buildDictZipStore\<close> throws \<^verbatim>\<open>invalid_argument\<close>. The four store classes are outside
  the sources: whether a ZipInt \<^verbatim>\<open>build\<close> succeeds is the parameter \<open>zipIntBuilds\<close> (it
  makes no difference to \<^verbatim>\<open>buildStore\<close>, whose two stores hold the same records), and
  what they build holds the records it was given. A null pointer is dereferenced before
  the conversion can complete (\<^verbatim>\<open>getReadableStore()\<close>, \<^verbatim>\<open>save\<close>): \<open>OutOfBounds\<close>.
\<close>

definition ReadonlySegment_buildIndex ::
  "(Schema \<Rightarrow> bytes list \<Rightarrow> bool) \<Rightarrow> Schema \<Rightarrow> bytes list \<Rightarrow> error + bytes list" where
  "ReadonlySegment_buildIndex zipIntBuilds schema indexData =
     (if Schema_columnNum schema = 1 \<and> m_isInteger schema ! 0
         \<and> zipIntBuilds schema indexData then Inr indexData
      else if m_fixedRowLen schema \<noteq> 0 \<and> m_fixedRowLen schema \<le> 16 then Inr indexData
      else Inl OutOfBounds)"

definition ReadonlySegment_buildStore :: "Schema \<Rightarrow> bytes list \<Rightarrow> error + bytes list" where
  "ReadonlySegment_buildStore schema storeData =
     (if Schema_columnNum schema = 1 \<and> m_isInteger schema ! 0 then Inr storeData
      else Inl OutOfBounds)"

definition ReadonlySegment_buildDictZipStore :: "Schema \<Rightarrow> bytes list \<Rightarrow> error + bytes list" where
  "ReadonlySegment_buildDictZipStore schema recs = Inl InvalidArgument"

definition ReadonlySegment_builders ::
  "(bytes list \<Rightarrow> nat) \<Rightarrow> (Schema \<Rightarrow> bytes list \<Rightarrow> bool) \<Rightarrow> externals" where
  "ReadonlySegment_builders mem zipIntBuilds =
     \<lparr> strVec_mem_size = mem,
       buildIndex = ReadonlySegment_buildIndex zipIntBuilds,
       buildStore = ReadonlySegment_buildStore,
       buildDictZipStore = ReadonlySegment_buildDictZipStore \<rparr>"

text \<open>The loop of \<^verbatim>\<open>collectData\<close> for records of variable length:
  \<^verbatim>\<open>while (strVec.mem_size() < maxMemSize && iter->increment(&recId, &buf)) strVec.push_back(buf)\<close>.
  The last argument is what the iterator has not handed out yet.\<close>

fun collect_records ::
  "(bytes list \<Rightarrow> nat) \<Rightarrow> nat \<Rightarrow> bytes list \<Rightarrow> bytes list \<Rightarrow> bytes list \<times> bytes list" where
  "collect_records mem maxMemSize strVec [] = (strVec, [])"
| "collect_records mem maxMemSize strVec (buf # iter) =
     (if mem strVec < maxMemSize then collect_records mem maxMemSize (strVec @ [buf]) iter
      else (strVec, buf # iter))"

text \<open>
  \<^verbatim>\<open>TempFileList::collectData\<close> on the temporary store with records \<open>recs\<close>: the number it
  returns, the data collected and the iterator afterwards. For a fixed row length it
  copies the whole store, whatever \<^verbatim>\<open>maxMemSize\<close> and the iterator say, and returns the
  store's number of rows.
\<close>

definition collectData ::
  "externals \<Rightarrow> Schema \<Rightarrow> bytes list \<Rightarrow> bytes list \<Rightarrow> nat
   \<Rightarrow> int \<times> bytes list \<times> bytes list" where
  "collectData ext schema recs iter maxMemSize =
     (if m_fixedRowLen schema = 0 then
        (case collect_records (strVec_mem_size ext) maxMemSize [] iter of
           (strVec, iter') \<Rightarrow> (int (length strVec), strVec, iter'))
      else (int (length recs), recs, iter))"

text \<open>The default \<^verbatim>\<open>maxMemSize\<close>, \<^verbatim>\<open>size_t(-1)\<close>.\<close>

definition SIZE_MAX :: nat where
  "SIZE_MAX = 2 ^ 64 - 1"

text \<open>A result that may be an error, of a computation that may not return.\<close>

definition bindOE ::
  "(error + 'a) option \<Rightarrow> ('a \<Rightarrow> (error + 'b) option) \<Rightarrow> (error + 'b) option" where
  "bindOE m f = (case m of None \<Rightarrow> None | Some (Inl e) \<Rightarrow> Some (Inl e) | Some (Inr x) \<Rightarrow> f x)"

fun foldOE :: "('a \<Rightarrow> 's \<Rightarrow> (error + 's) option) \<Rightarrow> 'a list \<Rightarrow> 's \<Rightarrow> (error + 's) option" where
  "foldOE f [] s = Some (Inr s)"
| "foldOE f (x # xs) s = bindOE (f x s) (foldOE f xs)"

text \<open>
  The loop \<^verbatim>\<open>while (rows < newRowNum)\<close> that builds the parts of a store. It does not end
  when \<^verbatim>\<open>collectData\<close> keeps returning \<open>0\<close>; it does not run at all when \<^verbatim>\<open>newRowNum\<close> is
  \<open>0\<close>, and the store then has no part.
\<close>

partial_function (option) build_parts ::
  "externals \<Rightarrow> Schema \<Rightarrow> bytes list \<Rightarrow> nat \<Rightarrow> int \<Rightarrow> int \<Rightarrow> bytes list \<Rightarrow> bytes list list
   \<Rightarrow> (error + bytes list list) option" where
  "build_parts ext schema recs maxMem newRowNum rows iter parts =
     (if rows < newRowNum then
        (case collectData ext schema recs iter maxMem of
           (n, strVec, iter') \<Rightarrow>
             (case buildStore ext schema strVec of
                Inl e \<Rightarrow> Some (Inl e)
              | Inr part \<Rightarrow>
                  build_parts ext schema recs maxMem newRowNum (rows + n) iter' (parts @ [part])))
      else Some (Inr parts))"

declare build_parts.simps [code]

text \<open>The first loop of the third pass: the index of an index column group is built from
  all the records of its temporary store.\<close>

definition buildIndexColgroup ::
  "externals \<Rightarrow> SchemaConfig \<Rightarrow> bytes list list \<Rightarrow> nat \<Rightarrow> store list \<Rightarrow> error + store list" where
  "buildIndexColgroup ext sc tmp i colgroups =
     bindE (getColgroupSchema sc i) (\<lambda>schema.
     bindE (vec_at tmp (int i)) (\<lambda>recs.
       case collectData ext schema recs recs SIZE_MAX of
         (n, strVec, iter') \<Rightarrow>
           bindE (buildIndex ext schema strVec) (\<lambda>built.
             vec_set colgroups (int i) (PlainStore built))))"

text \<open>
  \<^verbatim>\<open>FLT_EPSILON\<close>, and the test \<^verbatim>\<open>avgLen > 100\<close> for
  \<^verbatim>\<open>avgLen = double(tmpStore->dataInflateSize()) / newRowNum\<close>. The inflate size of a
  temporary store is the number of bytes of its records. A division by \<open>0\<close> gives
  infinity for a positive size and NaN, which compares false, for size \<open>0\<close>; the
  rounding of the division is left out.
\<close>

definition FLT_EPSILON :: real where
  "FLT_EPSILON = 1 / 2 ^ 23"

definition dataInflateSize :: "bytes list \<Rightarrow> nat" where
  "dataInflateSize recs = sum_list (map length recs)"

definition avgLen_above_100 :: "bytes list \<Rightarrow> int \<Rightarrow> bool" where
  "avgLen_above_100 recs newRowNum =
     (if newRowNum = 0 then 0 < dataInflateSize recs
      else 100 < real (dataInflateSize recs) / real_of_int newRowNum)"

text \<open>The second loop of the third pass, for one column group that has no index.\<close>

definition buildStoreColgroup ::
  "externals \<Rightarrow> SchemaConfig \<Rightarrow> bytes list list \<Rightarrow> int \<Rightarrow> nat \<Rightarrow> store list
   \<Rightarrow> (error + store list) option" where
  "buildStoreColgroup ext sc tmp newRowNum i colgroups =
     bindOE (Some (getColgroupSchema sc i)) (\<lambda>schema.
     bindOE (Some (vec_at tmp (int i))) (\<lambda>recs.
       if m_useFixedLenStore schema then
         Some (vec_set colgroups (int i) (PlainStore recs))
       else if m_dictZipLocalMatch schema \<and> m_dictZipSampleRatio schema \<ge> 0
               \<and> (m_dictZipSampleRatio schema > 0
                    \<or> (m_dictZipSampleRatio schema < FLT_EPSILON
                        \<and> avgLen_above_100 recs newRowNum)) then
         Some (bindE (buildDictZipStore ext schema recs) (\<lambda>built.
                 vec_set colgroups (int i) (PlainStore built)))
       else
         bindOE (build_parts ext schema recs (m_compressingWorkMemSize sc) newRowNum 0 recs [])
           (\<lambda>parts.
             Some (vec_set colgroups (int i)
                     (if length parts = 1 then PlainStore (hd parts)
                      else MultiPartStore parts)))))"

text \<open>The third pass: \<^verbatim>\<open>m_colgroups\<close> is resized to the number of column groups (null
  pointers), then filled by the two loops.\<close>

definition buildColgroups ::
  "externals \<Rightarrow> SchemaConfig \<Rightarrow> bytes list list \<Rightarrow> int \<Rightarrow> (error + store list) option" where
  "buildColgroups ext sc tmp newRowNum =
     bindOE (Some (foldE (buildIndexColgroup ext sc tmp) [0 ..< indexNum sc]
                     (replicate (length (m_colgroupSchemaSet sc)) NoStore))) (\<lambda>colgroups.
       foldOE (buildStoreColgroup ext sc tmp newRowNum) [indexNum sc ..< length tmp] colgroups)"

subsection \<open>Saving and reloading the new segment\<close>

text \<open>
  The directory a segment is saved to, as far as \<^verbatim>\<open>save\<close> and \<^verbatim>\<open>load\<close> use it: the file
  \<^verbatim>\<open>IsDel\<close>, the file \<^verbatim>\<open>IsPurged.rs\<close> when there is one, the saved indexes, and for every
  column group the files whose names start with \<^verbatim>\<open>colgroup-NAME\<close>, in the order of their
  names.

  The encodings of indexes and stores and their own \<^verbatim>\<open>save\<close> and \<^verbatim>\<open>load\<close> are outside the
  sources. An index comes back as it was saved and is represented by its store; a store
  that is not a \<^verbatim>\<open>MultiPartStore\<close> writes one file; a \<^verbatim>\<open>MultiPartStore\<close> writes one file per
  part under the names loadRecordStore looks for (\<^verbatim>\<open>colgroup-NAME.0000.\<close>...,
  \<^verbatim>\<open>colgroup-NAME.0001.\<close>..., ...), hence no file when it has no part.
\<close>

datatype store_file = WholeFile "bytes list" | PartFile nat "bytes list"

record segment_files =
  f_isDel :: "bool list"
  f_isPurged :: "bool list option"
  f_indices :: "store list"
  f_colgroups :: "store_file list list"

definition store_save :: "store \<Rightarrow> error + store_file list" where
  "store_save st =
     (case st of
        NoStore \<Rightarrow> Inl OutOfBounds
      | PlainStore recs \<Rightarrow> Inr [WholeFile recs]
      | MultiPartStore parts \<Rightarrow>
          Inr (map (\<lambda>(k, part). PartFile k part) (zip [0 ..< length parts] parts)))"

text \<open>saveRecordStore: the stores of the column groups from \<^verbatim>\<open>indexNum\<close> on are saved.\<close>

definition saveRecordStore ::
  "SchemaConfig \<Rightarrow> 'a ReadableSegment_scheme \<Rightarrow> error + store_file list list" where
  "saveRecordStore sc s =
     foldE (\<lambda>i files.
              bindE (vec_at (m_colgroups s) (int i)) (\<lambda>cg.
              bindE (store_save cg) (\<lambda>fs. vec_set files (int i) fs)))
       [indexNum sc ..< length (m_colgroupSchemaSet sc)]
       (replicate (length (m_colgroupSchemaSet sc)) [])"

text \<open>\<^verbatim>\<open>ReadonlySegment::save\<close>: savePurgeBits writes \<^verbatim>\<open>IsPurged.rs\<close> unless \<^verbatim>\<open>m_isPurged\<close> is
  empty, then \<^verbatim>\<open>ReadableSegment::save\<close> saves the stores, the indexes and \<^verbatim>\<open>m_isDel\<close>.\<close>

definition ReadonlySegment_save ::
  "SchemaConfig \<Rightarrow> 'a ReadableSegment_scheme \<Rightarrow> error + segment_files" where
  "ReadonlySegment_save sc s =
     bindE (saveRecordStore sc s) (\<lambda>files.
       Inr \<lparr> f_isDel = m_isDel s,
             f_isPurged = (if m_isPurged s = [] then None else Some (m_isPurged s)),
             f_indices = take (indexNum sc) (m_colgroups s),
             f_colgroups = files \<rparr>)"

text \<open>The loop of loadRecordStore over the part files: part \<open>j\<close> must be the file number
  \<open>j\<close>, otherwise \<^verbatim>\<open>invalid_argument\<close> (missing part).\<close>

fun load_parts :: "nat \<Rightarrow> store_file list \<Rightarrow> error + bytes list list" where
  "load_parts j [] = Inr []"
| "load_parts j (PartFile partIdx recs # files) =
     (if partIdx = j then bindE (load_parts (Suc j) files) (\<lambda>parts. Inr (recs # parts))
      else Inl InvalidArgument)"
| "load_parts j (WholeFile recs # files) = Inl InvalidArgument"

text \<open>loadRecordStore for one column group: \<^verbatim>\<open>invalid_argument\<close> (missing) when no file
  name starts with the prefix; a \<^verbatim>\<open>MultiPartStore\<close> when the first is part \<open>0000\<close>;
  \<^verbatim>\<open>ReadableStore::openStore\<close> on the first file otherwise.\<close>

definition loadStoreFiles :: "store_file list \<Rightarrow> error + store" where
  "loadStoreFiles files =
     (case files of
        [] \<Rightarrow> Inl InvalidArgument
      | WholeFile recs # rest \<Rightarrow> Inr (PlainStore recs)
      | PartFile partIdx recs # rest \<Rightarrow>
          if partIdx = 0 then bindE (load_parts 0 files) (\<lambda>parts. Inr (MultiPartStore parts))
          else Inr (PlainStore recs))"

definition loadRecordStore ::
  "SchemaConfig \<Rightarrow> segment_files \<Rightarrow> 'a ReadableSegment_scheme \<Rightarrow> error + store list" where
  "loadRecordStore sc files s =
     (if m_colgroups s \<noteq> [] then Inl InvalidArgument
      else
        foldE (\<lambda>i colgroups.
                 bindE (vec_at (f_colgroups files) (int i)) (\<lambda>fs.
                 bindE (loadStoreFiles fs) (\<lambda>cg. vec_set colgroups (int i) cg)))
          [indexNum sc ..< length (m_colgroupSchemaSet sc)]
          (f_indices files
             @ replicate (length (m_colgroupSchemaSet sc) - indexNum sc) NoStore))"

text \<open>
  removePurgeBitsForCompactIdspace: nothing without \<^verbatim>\<open>IsPurged.rs\<close>; otherwise
  \<^verbatim>\<open>m_isPurged\<close> is loaded and, unless \<^verbatim>\<open>m_withPurgeBits\<close> is set, the purged rows are taken
  out of \<^verbatim>\<open>m_isDel\<close> and the purge bitmap is dropped. (The repair of an interrupted
  earlier run, for bitmaps of different sizes, is left out: both files were just
  written from bitmaps of one size.)
\<close>

definition removePurgeBitsForCompactIdspace ::
  "segment_files \<Rightarrow> ReadableSegment \<Rightarrow> ReadableSegment" where
  "removePurgeBitsForCompactIdspace files s =
     (case f_isPurged files of
        None \<Rightarrow> s
      | Some purged \<Rightarrow>
          if m_withPurgeBits s then s\<lparr>m_isPurged := purged\<rparr>
          else s\<lparr>m_isDel := map snd (filter (\<lambda>(p, d). \<not> p) (zip purged (m_isDel s))),
                 m_delcnt := popcnt (map snd (filter (\<lambda>(p, d). \<not> p) (zip purged (m_isDel s)))),
                 m_isPurged := []\<rparr>)"

text \<open>\<^verbatim>\<open>ReadonlySegment::load\<close>: loadIsDel (which recomputes \<^verbatim>\<open>m_delcnt\<close>), openIndices,
  loadRecordStore, removePurgeBitsForCompactIdspace.\<close>

definition ReadonlySegment_load ::
  "SchemaConfig \<Rightarrow> segment_files \<Rightarrow> ReadableSegment \<Rightarrow> error + ReadableSegment" where
  "ReadonlySegment_load sc files s =
     bindE (loadRecordStore sc files s) (\<lambda>colgroups.
       Inr (removePurgeBitsForCompactIdspace files
              (s\<lparr>m_isDel := f_isDel files, m_delcnt := popcnt (f_isDel files),
                 m_colgroups := colgroups\<rparr>)))"

subsection \<open>completeAndReload: the drains\<close>

text \<open>\<^verbatim>\<open>getRecordsBasePtr()\<close>: the array of the records of a store that keeps them as one
  (a \<^verbatim>\<open>FixedLenStore\<close>); a null pointer otherwise.\<close>

definition getRecordsBasePtr :: "store \<Rightarrow> error + bytes list" where
  "getRecordsBasePtr st = (case st of PlainStore recs \<Rightarrow> Inr recs | _ \<Rightarrow> Inl OutOfBounds)"

text \<open>
  syncUpdateRecordNoLock: for every updatable column group, \<^verbatim>\<open>fixlen\<close> bytes are copied
  from the input's store at \<^verbatim>\<open>fixlen * srcPhysicId\<close> to this segment's store at
  \<^verbatim>\<open>fixlen * dstPhysicId\<close>. The records of an updatable column group all have length
  \<^verbatim>\<open>fixlen\<close>, so the record at the destination id is replaced by the record at the source
  id.
\<close>

definition syncUpdateRecordNoLock ::
  "SchemaConfig \<Rightarrow> nat \<Rightarrow> nat \<Rightarrow> ReadableSegment \<Rightarrow> ReadableSegment \<Rightarrow> error + ReadableSegment" where
  "syncUpdateRecordNoLock sc dstBaseId logicId input this =
     foldE (\<lambda>colgroupId t.
              bindE (vec_at (m_colgroups t) (int colgroupId)) (\<lambda>dstColstore.
              bindE (vec_at (m_colgroups input) (int colgroupId)) (\<lambda>srcColstore.
              bindE (getRecordsBasePtr dstColstore) (\<lambda>dstRecs.
              bindE (getRecordsBasePtr srcColstore) (\<lambda>srcRecs.
              bindE (vec_at srcRecs (int (getPhysicId input logicId))) (\<lambda>cell.
              bindE (vec_set dstRecs (int (getPhysicId this (dstBaseId + logicId))) cell)
                (\<lambda>dst.
              bindE (vec_set (m_colgroups t) (int colgroupId) (PlainStore dst)) (\<lambda>cgs.
                Inr (t\<lparr>m_colgroups := cgs\<rparr>)))))))))
       (m_updatableColgroups sc) this"

text \<open>The list form of a drain, after \<^verbatim>\<open>std::sort\<close> and \<^verbatim>\<open>std::unique\<close>.\<close>

fun sync_list ::
  "SchemaConfig \<Rightarrow> (nat \<Rightarrow> nat) \<Rightarrow> nat list \<Rightarrow> mutation list list
   \<Rightarrow> ReadableSegment \<times> ReadableSegment \<Rightarrow> error + (ReadableSegment \<times> ReadableSegment)" where
  "sync_list sc grow [] envs st = Inr st"
| "sync_list sc grow (logicId # dlist) envs st =
     (case st of (input, this) \<Rightarrow>
        bindE (apply_mutations sc grow (hd_batch envs) input) (\<lambda>inp.
        bindE (vec_at (m_isDel inp) (int logicId)) (\<lambda>del.
        bindE (if del then
                 bindE (vec_set (m_isDel this) (int logicId) True) (\<lambda>d.
                   Inr (this\<lparr>m_isDel := d\<rparr>))
               else syncUpdateRecordNoLock sc 0 logicId inp this) (\<lambda>this'.
          sync_list sc grow dlist (tl envs) (inp, this')))))"

text \<open>The bitmap form of a drain: the loop over the set bits below \<open>rows\<close>
  (\<^verbatim>\<open>m_isDel.size()\<close>), stepping with \<^verbatim>\<open>zero_seq_len\<close>.\<close>

function sync_bits ::
  "SchemaConfig \<Rightarrow> (nat \<Rightarrow> nat) \<Rightarrow> bool list \<Rightarrow> nat \<Rightarrow> nat \<Rightarrow> mutation list list
   \<Rightarrow> ReadableSegment \<times> ReadableSegment \<Rightarrow> error + (ReadableSegment \<times> ReadableSegment)" where
  "sync_bits sc grow updateBits rows logicId envs st =
     (if logicId < rows then
        (case st of (input, this) \<Rightarrow>
           bindE (apply_mutations sc grow (hd_batch envs) input) (\<lambda>inp.
           bindE (vec_at (m_isDel inp) (int logicId)) (\<lambda>del.
           bindE (if \<not> del then syncUpdateRecordNoLock sc 0 logicId inp this else Inr this)
             (\<lambda>this'.
             sync_bits sc grow updateBits rows
               (logicId + 1 + zero_seq_len updateBits (logicId + 1)) (tl envs) (inp, this')))))
      else Inr st)"
  by pat_completeness auto
termination
  by (relation "measure (\<lambda>(sc, grow, updateBits, rows, logicId, envs, st). rows - logicId)") auto

declare sync_bits.simps [simp del]

text \<open>
  The lambda \<^verbatim>\<open>syncNewDeletionMark\<close>. The journal is swapped with the local (empty)
  vectors; \<open>localCap\<close> is the capacity of the local list, which the input's list takes
  over, and the result carries the capacity the local list has after the swap.
\<close>

definition syncNewDeletionMark ::
  "SchemaConfig \<Rightarrow> (nat \<Rightarrow> nat) \<Rightarrow> mutation list list \<Rightarrow> nat
   \<Rightarrow> ReadableSegment \<times> ReadableSegment
   \<Rightarrow> error + (nat \<times> ReadableSegment \<times> ReadableSegment)" where
  "syncNewDeletionMark sc grow envs localCap st =
     (case st of (input, this) \<Rightarrow>
        if m_updateList input \<noteq> [] then
          bindE (sync_list sc grow (remdups_adj (sort (m_updateList input))) envs
                   (input\<lparr>m_updateList := [], m_updateList_capacity := localCap,
                          m_updateBits := []\<rparr>, this)) (\<lambda>(inp, this').
            Inr (m_updateList_capacity input, inp, this'))
        else if m_updateBits input \<noteq> [] then
          bindE (sync_bits sc grow (m_updateBits input) (length (m_isDel this))
                   (zero_seq_len (m_updateBits input) 0) envs
                   (input\<lparr>m_updateList := [], m_updateList_capacity := localCap,
                          m_updateBits := []\<rparr>, this)) (\<lambda>(inp, this').
            Inr (m_updateList_capacity input, inp, this'\<lparr>m_isDel := m_isDel inp\<rparr>))
        else
          Inr (m_updateList_capacity input,
               input\<lparr>m_updateList := [], m_updateList_capacity := localCap,
                      m_updateBits := []\<rparr>, this))"

text \<open>
  completeAndReload. The purge bitmap is made when rows are deleted, the segment is saved
  to the temporary directory, its bitmaps, indexes and stores are dropped and it is
  loaded back; then the journal is drained three times. The result is the input segment
  and the segment that replaces it in the table's segment vector.
\<close>

definition completeAndReload ::
  "SchemaConfig \<Rightarrow> (nat \<Rightarrow> nat) \<Rightarrow> environment \<Rightarrow> ReadableSegment \<Rightarrow> ReadableSegment
   \<Rightarrow> error + (ReadableSegment \<times> ReadableSegment)" where
  "completeAndReload sc grow env this0 input =
     bindE (ReadonlySegment_save sc
              (if m_delcnt this0 \<noteq> 0
               then this0\<lparr>m_isPurged := m_isDel this0, m_withPurgeBits := True\<rparr>
               else this0)) (\<lambda>files.
     bindE (ReadonlySegment_load sc files
              ((if m_delcnt this0 \<noteq> 0
                then this0\<lparr>m_isPurged := m_isDel this0, m_withPurgeBits := True\<rparr>
                else this0)\<lparr>m_isDel := [], m_isPurged := [], m_colgroups := []\<rparr>)) (\<lambda>this.
     bindE (syncNewDeletionMark sc grow (env_drain1 env) 0 (input, this))
       (\<lambda>(cap1, input1, this1).
     bindE (apply_mutations sc grow (env_between12 env) input1) (\<lambda>input2.
     bindE (syncNewDeletionMark sc grow (env_drain2 env) cap1 (input2, this1))
       (\<lambda>(cap2, input3, this2).
     bindE (apply_mutations sc grow (env_between23 env) input3) (\<lambda>input4.
     bindE (syncNewDeletionMark sc grow [] cap2 (input4, this2)) (\<lambda>(cap3, input5, this3).
       Inr (input5, this3\<lparr>m_delcnt := m_delcnt input5\<rparr>))))))))"

subsection \<open>convFrom\<close>

text \<open>The constructor \<^verbatim>\<open>ReadonlySegment::ReadonlySegment()\<close>.\<close>

definition ReadonlySegment_new :: ReadableSegment where
  "ReadonlySegment_new = ReadableSegment_new\<lparr>m_isFreezed := True\<rparr>"

text \<open>What convFrom asserts of the segment it converts: it is frozen, journaling is off,
  the journal's list is empty, and it has a row (\<^verbatim>\<open>logicRowNum > 0\<close>). That it is a
  writable segment is not a matter of the record.\<close>

definition convFrom_asserts :: "ReadableSegment \<Rightarrow> bool" where
  "convFrom_asserts input =
     (m_isFreezed input \<and> m_updateList input = [] \<and> \<not> m_bookUpdates input
      \<and> 0 < length (m_isDel input))"

text \<open>
  convFrom: journaling is switched on (with 1024 reserved list entries), \<^verbatim>\<open>m_isDel\<close> is
  copied, the scan fills the temporary stores, ids after the last one the iterator
  produced are marked deleted in both segments, \<^verbatim>\<open>m_delcnt\<close> is recomputed, the indexes
  and stores are built, and completeAndReload finishes. \<open>None\<close> is a conversion that does
  not return.
\<close>

definition convFrom ::
  "externals \<Rightarrow> SchemaConfig \<Rightarrow> (nat \<Rightarrow> nat) \<Rightarrow> environment \<Rightarrow> ReadableSegment
   \<Rightarrow> (error + (ReadableSegment \<times> ReadableSegment)) option" where
  "convFrom ext sc grow env input0 =
     bindOE (Some (apply_mutations sc grow (env_snapshot env)
              (input0\<lparr>m_updateList_capacity := max (m_updateList_capacity input0) 1024,
                      m_bookUpdates := True\<rparr>))) (\<lambda>input1.
     bindOE (Some (convFrom_scan sc grow (int (length (m_isDel input1)))
              (zip [0 ..< length (m_wrtStore input1)] (m_wrtStore input1)) (env_scan env)
              \<lparr> cl_input = input1, cl_isDel = m_isDel input1,
                cl_tmp = replicate (length (m_colgroupSchemaSet sc)) [],
                cl_newRowNum = 0, cl_prevId = - 1, cl_id = - 1,
                cl_cols1 = ColumnVec_new \<rparr>)) (\<lambda>st.
     bindOE (Some (apply_mutations sc grow (env_build env)
              (if cl_id st + 1 < int (length (m_isDel input1))
               then (cl_input st)\<lparr>m_isDel :=
                      beg_end_set1 (m_isDel (cl_input st)) (cl_id st + 1)
                        (int (length (m_isDel input1)))\<rparr>
               else cl_input st))) (\<lambda>input2.
     bindOE (buildColgroups ext sc (cl_tmp st) (cl_newRowNum st)) (\<lambda>colgroups.
       Some (completeAndReload sc grow env
         (ReadonlySegment_new\<lparr>
            m_isDel :=
              (if cl_id st + 1 < int (length (m_isDel input1))
               then beg_end_set1 (cl_isDel st) (cl_id st + 1) (int (length (m_isDel input1)))
               else cl_isDel st),
            m_delcnt :=
              popcnt (if cl_id st + 1 < int (length (m_isDel input1))
                      then beg_end_set1 (cl_isDel st) (cl_id st + 1)
                             (int (length (m_isDel input1)))
                      else cl_isDel st),
            m_colgroups := colgroups\<rparr>)
         input2)))))"

subsection \<open>A conversion to exercise the definitions\<close>

text \<open>
  An encoding for schemas in which every column but the last has a fixed width: the
  columns follow one another, the last one runs to the end of the record. \<open>widths\<close> holds
  the widths of the columns (that of the last one is not used).
\<close>

fun fixed_extents :: "nat list \<Rightarrow> nat \<Rightarrow> nat \<Rightarrow> (nat \<times> nat) list" where
  "fixed_extents [] pos end = []"
| "fixed_extents [w] pos end = [(pos, end - pos)]"
| "fixed_extents (w # ws) pos end = (pos, w) # fixed_extents ws (pos + w) end"

definition example_extents :: "nat list \<Rightarrow> bytes \<Rightarrow> nat \<Rightarrow> (nat \<times> nat) list" where
  "example_extents widths buf start = fixed_extents widths start (length buf)"

text \<open>
  A table of two columns: column \<open>0\<close> is one character wide and updatable in place,
  column \<open>1\<close> is a string of any length and has the table's index. Column group \<open>0\<close> is the
  index on column \<open>1\<close>, column group \<open>1\<close> the updatable column \<open>0\<close>; the write store
  holds column \<open>1\<close>.
\<close>

definition example_row_schema :: Schema where
  "example_row_schema =
     \<lparr> m_parents = [0, 1], m_keepCols = [True, True], m_isInteger = [False, False],
       m_fixedRowLen = 0,
       m_useFixedLenStore = False, m_dictZipLocalMatch = True, m_dictZipSampleRatio = 0,
       m_columnExtents = example_extents [1, 0], m_encode = concat \<rparr>"

definition example_name_schema :: Schema where
  "example_name_schema =
     \<lparr> m_parents = [1], m_keepCols = [True], m_isInteger = [False], m_fixedRowLen = 0,
       m_useFixedLenStore = False, m_dictZipLocalMatch = True, m_dictZipSampleRatio = 0,
       m_columnExtents = example_extents [0], m_encode = concat \<rparr>"

definition example_flag_schema :: Schema where
  "example_flag_schema =
     \<lparr> m_parents = [0], m_keepCols = [True], m_isInteger = [False], m_fixedRowLen = 1,
       m_useFixedLenStore = True, m_dictZipLocalMatch = True, m_dictZipSampleRatio = 0,
       m_columnExtents = example_extents [1], m_encode = concat \<rparr>"

definition convert_schema_example :: SchemaConfig where
  "convert_schema_example =
     \<lparr> m_rowSchema = example_row_schema,
       m_colgroupSchemaSet = [example_name_schema, example_flag_schema],
       indexNum = 1, m_updatableColgroups = [1], m_wrtSchema = example_name_schema,
       m_compressingWorkMemSize = 1024 \<rparr>"

text \<open>The same table without its index: column group \<open>0\<close> goes through \<^verbatim>\<open>buildStore\<close>.\<close>

definition convert_schema_noindex :: SchemaConfig where
  "convert_schema_noindex =
     convert_schema_example\<lparr>
       indexNum := 0,
       m_colgroupSchemaSet :=
         [example_name_schema\<lparr>m_dictZipSampleRatio := - 1\<rparr>, example_flag_schema]\<rparr>"

text \<open>
  A frozen writable segment of that table with the two live rows \<open>(1, ab)\<close> and
  \<open>(2, wxyz)\<close>; the same segment with rows of one length, \<open>(1, ab)\<close> and \<open>(2, wx)\<close>; and
  the same segment with both rows deleted.
\<close>

definition convert_input_example :: ReadableSegment where
  "convert_input_example =
     ReadableSegment_new\<lparr> m_isDel := [False, False], m_isFreezed := True,
       m_colgroups := [NoStore, PlainStore [''1'', ''2'']],
       m_wrtStore := [Some ''ab'', Some ''wxyz''] \<rparr>"

definition convert_input_equal_lengths :: ReadableSegment where
  "convert_input_equal_lengths =
     convert_input_example\<lparr>m_wrtStore := [Some ''ab'', Some ''wx'']\<rparr>"

definition convert_input_all_deleted :: ReadableSegment where
  "convert_input_all_deleted =
     convert_input_example\<lparr>m_isDel := [True, True], m_delcnt := 2\<rparr>"

text \<open>No other thread touches the segment during the conversion.\<close>

definition idle_environment :: environment where
  "idle_environment =
     \<lparr> env_snapshot = [], env_scan = [], env_build = [], env_drain1 = [],
       env_between12 = [], env_drain2 = [], env_between23 = [] \<rparr>"

text \<open>
  Modelled from the spec: the builders of a segment class that overrides them (the
  segment classes in use are outside the sources) are opaque builders that consume a
  batch of records and produce an immutable store holding them. The memory a string
  vector takes is counted as the bytes of its records.
\<close>

definition keeping_builders :: externals where
  "keeping_builders =
     \<lparr> strVec_mem_size = (\<lambda>recs. length (concat recs)),
       buildIndex = (\<lambda>schema recs. Inr recs),
       buildStore = (\<lambda>schema recs. Inr recs),
       buildDictZipStore = (\<lambda>schema recs. Inr recs) \<rparr>"

text \<open>The segment class of the sources itself, where \<^verbatim>\<open>ZipIntKeyIndex\<close> and \<^verbatim>\<open>ZipIntStore\<close>
  never throw.\<close>

definition base_builders :: externals where
  "base_builders = ReadonlySegment_builders (\<lambda>recs. length (concat recs)) (\<lambda>schema recs. True)"

section \<open>Theorems: basic facts\<close>

lemma bindE_Inr [simp]: "bindE (Inr x) f = f x"
  by (simp add: bindE_def)

lemma bindE_Inl [simp]: "bindE (Inl e) f = Inl e"
  by (simp add: bindE_def)

lemma select0_Some:
  "k < max_rank0 bits \<Longrightarrow>
   \<exists>l. select0 bits k = Some l \<and> l < length bits \<and> \<not> bits ! l \<and> rank0 bits l = k"
proof (induction bits arbitrary: k)
  case Nil
  then show ?case by (simp add: max_rank0_def)
next
  case (Cons b bs)
  show ?case
  proof (cases b)
    case True
    with Cons.prems have "k < max_rank0 bs" by (simp add: max_rank0_def)
    from Cons.IH [OF this] obtain l where
      "select0 bs k = Some l" "l < length bs" "\<not> bs ! l" "rank0 bs l = k" by blast
    with True show ?thesis by (simp add: rank0_def)
  next
    case False
    show ?thesis
    proof (cases k)
      case 0
      with False show ?thesis by (simp add: rank0_def)
    next
      case (Suc k')
      with False Cons.prems have "k' < max_rank0 bs" by (simp add: max_rank0_def)
      from Cons.IH [OF this] obtain l where
        "select0 bs k' = Some l" "l < length bs" "\<not> bs ! l" "rank0 bs l = k'" by blast
      with False Suc show ?thesis by (simp add: rank0_def)
    qed
  qed
qed



section \<open>Theorems: adding to the journal\<close>




section \<open>Theorems: the composite table\<close>

lemmas table_example_defs =
  store_bytes_def whole_row_key_def table_schema_example_def frozen_two_rows_def
  tail_one_row_def table_opened_empty_def table_opened_rd_def table_opened_rd_wr_def
  CompositeTable_def createWritableSegment_def DEFAULT_maxSegNum_def
  DEFAULT_maxWrSegSize_def DEFAULT_readonlyDataMemSize_def getIndexNum_def

lemmas table_op_defs =
  vec_at_def vec_set_def vec_back_def vec_set_back_def wrSeg_def set_wrSeg_def
  seg_numDataRows_def numDataRows_def upper_bound_0_def seg_getValue_def

lemma openTable_segments_empty:
  "openTable_segments store_bytes [] [] table_schema_example = Inr table_opened_empty"
  by (simp add: openTable_segments_def table_example_defs)

lemma openTable_segments_rd:
  "openTable_segments store_bytes [frozen_two_rows] [] table_schema_example = Inr table_opened_rd"
  by (simp add: openTable_segments_def table_example_defs seg_numDataRows_def)

lemma openTable_segments_rd_wr:
  "openTable_segments store_bytes [frozen_two_rows] [tail_one_row] table_schema_example =
     Inr table_opened_rd_wr"
  by (simp add: openTable_segments_def table_example_defs seg_numDataRows_def)

lemma upper_bound_0_023:
  "upper_bound_0 [0, 2, 3] 0 = 1" "upper_bound_0 [0, 2, 3] 2 = 2" "upper_bound_0 [0, 2, 1] 3 = 3"
  by (simp_all add: upper_bound_0_def upper_bound_n.simps)

text \<open>
  Claim C2 (evaluation of the code). A table opened on one read-only segment of two rows
  has the prefix sums \<open>[0, 2, 2]\<close> and an empty tail. Inserting a row appends it to the
  tail under sub id 0 and returns the logical id \<open>2 = m_rowNumVec[-2] + subId\<close>, but the
  statement \<^verbatim>\<open>m_rowNumVec.back() = subId\<close> stores the tail-local sub id 0 as the last
  prefix sum: afterwards the segments hold 3 rows while \<^verbatim>\<open>m_rowNumVec.back()\<close> plus the
  tail's row count, which is what numDataRows returns, is 1.
\<close>

theorem insertRowImpl_overwrites_last_prefix_sum:
  "insertRowImpl store_bytes whole_row_key ''r2'' False table_opened_rd =
     Inr (2, table_opened_rd\<lparr>
               m_segments := [frozen_two_rows,
                              (createWritableSegment 1)\<lparr>m_isDel := [False],
                                                         m_store := [Some ''r2'']\<rparr>],
               m_rowNumVec := [0, 2, 0]\<rparr>)
   \<and> sum_list (map seg_numDataRows
        [frozen_two_rows,
         (createWritableSegment 1)\<lparr>m_isDel := [False], m_store := [Some ''r2'']\<rparr>]) = 3
   \<and> numDataRows (table_opened_rd\<lparr>
               m_segments := [frozen_two_rows,
                              (createWritableSegment 1)\<lparr>m_isDel := [False],
                                                         m_store := [Some ''r2'']\<rparr>],
               m_rowNumVec := [0, 2, 0]\<rparr>) = Inr 1"
  by (simp add: insertRowImpl_def maybeCreateNewSegment_def table_example_defs table_op_defs)

text \<open>
  Claim C3 (evaluation of the code). In a table opened on a read-only segment of two
  rows and a writable tail of one row (prefix sums \<open>[0, 2, 3]\<close>), replacing the row with
  logical id 0, which lives in the first segment, returns the new id 3; yet the bit that
  is set is bit 0 of the tail's bitmap (the live row with logical id 2), the first
  segment's bitmap is untouched, and reading the returned id 3 back does not give the new
  row: the prefix sums are \<open>[0, 2, 1]\<close> by then and the lookup leaves the segment vector.
\<close>

theorem replaceRow_marks_tail_not_owner:
  "replaceRow store_bytes whole_row_key [] 0 ''X'' False table_opened_rd_wr =
     Inr (3, table_opened_rd_wr\<lparr>
               m_segments := [frozen_two_rows,
                              tail_one_row\<lparr>m_isDel := [True, False],
                                           m_store := [Some ''r2'', Some ''X'']\<rparr>],
               m_rowNumVec := [0, 2, 1]\<rparr>)
   \<and> m_isDel frozen_two_rows = [False, False]
   \<and> getValue 3 (table_opened_rd_wr\<lparr>
               m_segments := [frozen_two_rows,
                              tail_one_row\<lparr>m_isDel := [True, False],
                                           m_store := [Some ''r2'', Some ''X'']\<rparr>],
               m_rowNumVec := [0, 2, 1]\<rparr>) = Inl OutOfBounds"
  by (simp add: replaceRow_def getValue_def insertRowImpl_def maybeCreateNewSegment_def
        table_example_defs table_op_defs upper_bound_n.simps)

text \<open>
  Claim C4 (evaluation of the code). In the same table, removing logical id 0 (a row of
  the frozen first segment) sets bit 0 of the tail's bitmap and leaves the owning
  segment's bitmap alone; removing logical id 2 (the row of the tail) with index
  synchronisation requested only sets the tail's bit: the row stays in the write store
  and its key stays in the index. The branch that removes physically is taken only when
  \<^verbatim>\<open>upper_bound_0\<close> returns \<^verbatim>\<open>m_rowNumVec.size()\<close>, that is for ids past the last prefix sum.
\<close>

theorem removeRow_only_marks_tail_bit:
  "removeRow whole_row_key 0 True table_opened_rd_wr =
     Inr (table_opened_rd_wr\<lparr>m_segments := [frozen_two_rows, tail_one_row\<lparr>m_isDel := [True]\<rparr>]\<rparr>)
   \<and> removeRow whole_row_key 2 True table_opened_rd_wr =
     Inr (table_opened_rd_wr\<lparr>m_segments := [frozen_two_rows, tail_one_row\<lparr>m_isDel := [True]\<rparr>]\<rparr>)"
  by (simp add: removeRow_def table_example_defs table_op_defs upper_bound_n.simps)

text \<open>
  Claim C5 (evaluation of the code). A table opened without segments has the prefix sums
  \<open>[0, 0]\<close>; the first insert returns logical id 0 and leaves \<^verbatim>\<open>m_rowNumVec.back() = 0\<close>.
  The id 0 is not below \<^verbatim>\<open>m_rowNumVec.back()\<close> and is the id of a row of the tail, but
  indexInsert, indexRemove and indexReplace reject it with \<open>InvalidArgument\<close>: their
  threshold is \<^verbatim>\<open>m_rowNumVec.back() + m_wrSeg->numDataRows()\<close>, which is 1 here.
\<close>

theorem index_ops_reject_tail_row:
  "insertRowImpl store_bytes whole_row_key ''r0'' False table_opened_empty =
     Inr (0, table_opened_empty\<lparr>
               m_segments := [(createWritableSegment 1)\<lparr>m_isDel := [False],
                                                         m_store := [Some ''r0'']\<rparr>]\<rparr>)
   \<and> vec_back (m_rowNumVec table_opened_empty) = Inr 0
   \<and> indexInsert 0 ''r0'' 0 (table_opened_empty\<lparr>
               m_segments := [(createWritableSegment 1)\<lparr>m_isDel := [False],
                                                         m_store := [Some ''r0'']\<rparr>]\<rparr>)
       = Inl InvalidArgument
   \<and> indexRemove 0 ''r0'' 0 (table_opened_empty\<lparr>
               m_segments := [(createWritableSegment 1)\<lparr>m_isDel := [False],
                                                         m_store := [Some ''r0'']\<rparr>]\<rparr>)
       = Inl InvalidArgument
   \<and> indexReplace 0 ''r0'' 0 1 (table_opened_empty\<lparr>
               m_segments := [(createWritableSegment 1)\<lparr>m_isDel := [False],
                                                         m_store := [Some ''r0'']\<rparr>]\<rparr>)
       = Inl InvalidArgument"
  by (simp add: insertRowImpl_def maybeCreateNewSegment_def indexInsert_def indexRemove_def
        indexReplace_def table_example_defs table_op_defs)

text \<open>
  Claim C8 (evaluation of the code). For the row schema \<open>(a, b)\<close> and one index on \<open>a\<close>,
  every index column is a row column, yet createTable does not succeed: after the first
  column the inner loop, whose condition is on \<open>j\<close> but whose increment is \<^verbatim>\<open>++i\<close>, asks
  the index schema for the name of its column 1, which it does not have.
\<close>

theorem createTable_runs_off_index_schema:
  "createTable ''dir'' ''tab'' [''a'', ''b''] [[''a'']] CompositeTable = Inl OutOfBounds"
  by (simp add: createTable_def createTable_outer.simps createTable_inner.simps
        CompositeTable_def)

text \<open>createTable cannot succeed when its first index schema has a column: the inner
  loop never leaves through its condition.\<close>

lemma createTable_fails_on_nonempty_index:
  assumes "indexSchemaSet \<noteq> []" "hd indexSchemaSet \<noteq> []" "m_segments t = []"
  shows "\<exists>e. createTable dir name rowSchema indexSchemaSet t = Inl e"
proof -
  from assms(1) have first: "indexSchemaSet ! 0 = hd indexSchemaSet"
    by (simp add: hd_conv_nth)
  obtain r where r: "createTable_inner rowSchema (indexSchemaSet ! 0) 0 []
      (replicate (length rowSchema) False) = r" by simp
  have "\<exists>e. r = Inl e"
  proof (cases r)
    case (Inl e)
    then show ?thesis by simp
  next
    case (Inr x)
    with r createTable_inner_Inr [of rowSchema "indexSchemaSet ! 0" 0 "[]"
        "replicate (length rowSchema) False" x] first assms(2)
    show ?thesis by simp
  qed
  then obtain e where "r = Inl e" by blast
  with r assms(1) have "createTable_outer rowSchema indexSchemaSet 0 []
      (replicate (length rowSchema) False) = Inl e"
    by (subst createTable_outer.simps) simp
  with assms(3) show ?thesis by (simp add: createTable_def)
qed

text \<open>
  Claim C9 (evaluation of the code). On the table of claims C3 and C4, whose segments
  store 4 and 2 bytes, totalStorageSize returns the read-only data size plus 10 with one
  index and plus 16 with two: the sum over the segments is added once per index. The
  single sum the claim describes is plus 10 whatever the number of indexes.
\<close>

theorem totalStorageSize_grows_with_index_count:
  "totalStorageSize store_bytes store_bytes table_opened_rd_wr = Inr (2147483648 + 10)
   \<and> totalStorageSize store_bytes store_bytes
        (table_opened_rd_wr\<lparr>m_indexSchemaSet := [[''a''], [''b'']]\<rparr>) = Inr (2147483648 + 16)
   \<and> m_readonlyDataMemSize table_opened_rd_wr + store_bytes tail_one_row
        + sum_list (map store_bytes (m_segments table_opened_rd_wr))
        + store_bytes tail_one_row = 2147483648 + 10"
  by (simp add: totalStorageSize_def table_example_defs table_op_defs upt_conv_Cons)

section \<open>Theorems: the pending-update journal\<close>



lemma addtoUpdateList_example_list:
  "addtoUpdateList (\<lambda>c. 2 * c + 1) 1 journaling_segment_example =
     Inr (journaling_segment_example\<lparr>m_updateList := [1]\<rparr>)"
  by (simp add: addtoUpdateList_def journaling_segment_example_def ReadableSegment_new_def)

lemma addtoUpdateList_example_promote:
  "addtoUpdateList (\<lambda>c. 2 * c + 1) 1
     (journaling_segment_example\<lparr>m_updateList := [2], m_updateList_capacity := 1\<rparr>) =
     Inr (journaling_segment_example\<lparr>m_updateList := [], m_updateList_capacity := 0,
            m_updateBits := [False, True, True, True]\<rparr>)"
  by (simp add: addtoUpdateList_def journaling_segment_example_def ReadableSegment_new_def)

section \<open>Theorems: exact index search on a read-only segment\<close>

lemma searchFilter_loop:
  assumes "ns \<le> k" "k \<le> length d"
    and "\<forall>j. k \<le> j \<and> j < length d \<longrightarrow>
           (\<exists>l. searchHitLogicId s (d ! j) = Inr (int l) \<and> l < length (m_isDel s))"
  shows "\<exists>d'. foldE (searchFilterStep s) [k ..< length d] (d, ns) =
                Inr (d', ns + length (filter (\<lambda>l. \<not> m_isDel s ! l) (map (hit_lid s) (drop k d))))
           \<and> take (ns + length (filter (\<lambda>l. \<not> m_isDel s ! l) (map (hit_lid s) (drop k d)))) d' =
               take ns d @ map int (filter (\<lambda>l. \<not> m_isDel s ! l) (map (hit_lid s) (drop k d)))"
  using assms
proof (induction "length d - k" arbitrary: d ns k)
  case 0
  then show ?case by simp
next
  case (Suc n)
  then have klt: "k < length d" by simp
  from Suc.prems(3) klt obtain l where
    l: "searchHitLogicId s (d ! k) = Inr (int l)" "l < length (m_isDel s)" by blast
  have upt: "[k ..< length d] = k # [Suc k ..< length d]"
    using klt by (simp add: upt_conv_Cons)
  have dropk: "drop k d = d ! k # drop (Suc k) d"
    using klt by (simp add: Cons_nth_drop_Suc)
  have lid: "hit_lid s (d ! k) = l" by (simp add: hit_lid_def l)
  show ?case
  proof (cases "m_isDel s ! l")
    case True
    have step: "searchFilterStep s k (d, ns) = Inr (d, ns)"
      using klt l True by (simp add: searchFilterStep_def vec_at_def)
    have "n = length d - Suc k" using Suc.hyps(2) by simp
    from Suc.hyps(1) [OF this, of ns] Suc.prems klt
    obtain d' where
      "foldE (searchFilterStep s) [Suc k ..< length d] (d, ns) =
         Inr (d', ns + length (filter (\<lambda>l. \<not> m_isDel s ! l) (map (hit_lid s) (drop (Suc k) d))))"
      "take (ns + length (filter (\<lambda>l. \<not> m_isDel s ! l) (map (hit_lid s) (drop (Suc k) d)))) d' =
         take ns d @ map int (filter (\<lambda>l. \<not> m_isDel s ! l) (map (hit_lid s) (drop (Suc k) d)))"
      by force
    then show ?thesis
      by (simp add: upt step dropk lid True)
  next
    case False
    let ?d1 = "d[ns := int l]"
    have nslt: "ns < length d" using Suc.prems(1) klt by simp
    have step: "searchFilterStep s k (d, ns) = Inr (?d1, Suc ns)"
      using klt l False nslt by (simp add: searchFilterStep_def vec_at_def vec_set_def)
    have n: "n = length ?d1 - Suc k" using Suc.hyps(2) by simp
    have valid1: "\<forall>j. Suc k \<le> j \<and> j < length ?d1 \<longrightarrow>
           (\<exists>l. searchHitLogicId s (?d1 ! j) = Inr (int l) \<and> l < length (m_isDel s))"
      using Suc.prems(1,3) by auto
    have drop1: "drop (Suc k) ?d1 = drop (Suc k) d"
      using Suc.prems(1) by simp
    from Suc.hyps(1) [OF n, of "Suc ns"] valid1 Suc.prems(1) klt
    obtain d' where d':
      "foldE (searchFilterStep s) [Suc k ..< length ?d1] (?d1, Suc ns) =
         Inr (d', Suc ns + length (filter (\<lambda>l. \<not> m_isDel s ! l) (map (hit_lid s) (drop (Suc k) ?d1))))"
      "take (Suc ns + length (filter (\<lambda>l. \<not> m_isDel s ! l) (map (hit_lid s) (drop (Suc k) ?d1)))) d' =
         take (Suc ns) ?d1 @ map int (filter (\<lambda>l. \<not> m_isDel s ! l) (map (hit_lid s) (drop (Suc k) ?d1)))"
      by force
    have take1: "take (Suc ns) ?d1 = take ns d @ [int l]"
      using nslt by (simp add: take_Suc_conv_app_nth)
    from d' show ?thesis
      by (simp add: upt step dropk lid False drop1 take1)
  qed
qed


lemma valid_hit_logic:
  assumes wf: "m_isPurged s = [] \<or> length (m_isPurged s) = length (m_isDel s)"
    and h: "0 \<le> h" "nat h < getPhysicRows s"
  shows "searchHitLogicId s h = Inr (int (hit_lid s h))
       \<and> getLogicId s (nat h) = Inr (hit_lid s h)
       \<and> hit_lid s h < length (m_isDel s)"
proof (cases "m_isPurged s = []")
  case True
  with h show ?thesis
    by (simp add: searchHitLogicId_def getLogicId_def hit_lid_def getPhysicRows_def)
next
  case False
  with h have "nat h < max_rank0 (m_isPurged s)" by (simp add: getPhysicRows_def)
  from select0_Some [OF this] obtain l where
    l: "select0 (m_isPurged s) (nat h) = Some l" "l < length (m_isPurged s)" by blast
  with False wf h show ?thesis
    by (simp add: searchHitLogicId_def getLogicId_def hit_lid_def)
qed

text \<open>
  Claim C7. Under the conditions the source asserts (the purge bitmap, when present, has
  one bit per logical row; every id the underlying index produced is a physical id below
  \<^verbatim>\<open>getPhysicRows\<close>), indexSearchExactAppend leaves the earlier content of the output
  vector alone and appends exactly the logical ids of the hits (the hit itself without
  purge bits, its \<^verbatim>\<open>select0\<close> translation with them) whose \<^verbatim>\<open>m_isDel\<close> bit is clear:
  no physical id and no deleted row reaches the caller.
\<close>

theorem indexSearchExactAppend_logical_live:
  assumes wf: "m_isPurged s = [] \<or> length (m_isPurged s) = length (m_isDel s)"
    and hits: "list_all (\<lambda>h. 0 \<le> h \<and> nat h < getPhysicRows s) hits"
  shows "\<exists>ls. map (\<lambda>h. getLogicId s (nat h)) hits = map Inr ls
            \<and> list_all (\<lambda>l. l < length (m_isDel s)) ls
            \<and> indexSearchExactAppend hits recIdvec s =
                Inr (recIdvec @ map int (filter (\<lambda>l. \<not> m_isDel s ! l) ls))"
proof -
  let ?ls = "map (hit_lid s) hits"
  let ?d = "recIdvec @ hits"
  let ?k = "length recIdvec"
  have each: "\<And>h. h \<in> set hits \<Longrightarrow>
      searchHitLogicId s h = Inr (int (hit_lid s h))
       \<and> getLogicId s (nat h) = Inr (hit_lid s h)
       \<and> hit_lid s h < length (m_isDel s)"
    using hits valid_hit_logic [OF wf] by (auto simp: list_all_iff)
  have logic: "map (\<lambda>h. getLogicId s (nat h)) hits = map Inr ?ls"
    using each by simp
  have bound: "list_all (\<lambda>l. l < length (m_isDel s)) ?ls"
    using each by (simp add: list_all_iff)
  have valid: "\<forall>j. ?k \<le> j \<and> j < length ?d \<longrightarrow>
           (\<exists>l. searchHitLogicId s (?d ! j) = Inr (int l) \<and> l < length (m_isDel s))"
  proof (intro allI impI)
    fix j assume j: "?k \<le> j \<and> j < length ?d"
    then have "?d ! j = hits ! (j - ?k)" and "j - ?k < length hits"
      by (auto simp: nth_append)
    then have "?d ! j \<in> set hits" by simp
    with each show "\<exists>l. searchHitLogicId s (?d ! j) = Inr (int l) \<and> l < length (m_isDel s)"
      by blast
  qed
  from searchFilter_loop [of ?k ?k ?d s, OF le_refl _ valid]
  obtain d' where d':
    "foldE (searchFilterStep s) [?k ..< length ?d] (?d, ?k) =
       Inr (d', ?k + length (filter (\<lambda>l. \<not> m_isDel s ! l) ?ls))"
    "take (?k + length (filter (\<lambda>l. \<not> m_isDel s ! l) ?ls)) d' =
       recIdvec @ map int (filter (\<lambda>l. \<not> m_isDel s ! l) ?ls)"
    by auto
  have "indexSearchExactAppend hits recIdvec s =
          Inr (recIdvec @ map int (filter (\<lambda>l. \<not> m_isDel s ! l) ?ls))"
    unfolding indexSearchExactAppend_def using d' by simp
  with logic bound show ?thesis by blast
qed

theorem indexSearchExactAppend_logical_live_witness:
  "(m_isPurged purged_segment_example = []
     \<or> length (m_isPurged purged_segment_example) = length (m_isDel purged_segment_example))
   \<and> list_all (\<lambda>h. 0 \<le> h \<and> nat h < getPhysicRows purged_segment_example) [0, 1, 2]
   \<and> (\<exists>ls. map (\<lambda>h. getLogicId purged_segment_example (nat h)) [0, 1, 2] = map Inr ls
         \<and> list_all (\<lambda>l. l < length (m_isDel purged_segment_example)) ls
         \<and> indexSearchExactAppend [0, 1, 2] [7] purged_segment_example =
            Inr ([7] @ map int (filter (\<lambda>l. \<not> m_isDel purged_segment_example ! l) ls)))"
proof -
  have wf: "m_isPurged purged_segment_example = []
     \<or> length (m_isPurged purged_segment_example) = length (m_isDel purged_segment_example)"
    by (simp add: purged_segment_example_def ReadableSegment_new_def)
  have hits: "list_all (\<lambda>h. 0 \<le> h \<and> nat h < getPhysicRows purged_segment_example) [0, 1, 2]"
    by (simp add: purged_segment_example_def ReadableSegment_new_def getPhysicRows_def
          max_rank0_def)
  from indexSearchExactAppend_logical_live [OF wf hits, of "[7]"] wf hits
  show ?thesis by blast
qed

lemma indexSearchExactAppend_example:
  "indexSearchExactAppend [0, 1, 2] [7] purged_segment_example = Inr [7, 0, 3]"
  by (simp add: indexSearchExactAppend_def searchFilterStep_def searchHitLogicId_def
        purged_segment_example_def ReadableSegment_new_def
        vec_at_def vec_set_def upt_conv_Cons)

section \<open>Theorems: the forward store iterator of a read-only segment\<close>









section \<open>Theorems: converting a frozen writable segment\<close>

lemmas convert_example_defs =
  convert_schema_example_def convert_schema_noindex_def example_row_schema_def
  example_name_schema_def example_flag_schema_def convert_input_example_def
  convert_input_equal_lengths_def convert_input_all_deleted_def idle_environment_def
  keeping_builders_def base_builders_def ReadonlySegment_builders_def
  ReadonlySegment_buildIndex_def ReadonlySegment_buildStore_def
  ReadonlySegment_buildDictZipStore_def ReadableSegment_new_def ReadonlySegment_new_def
  example_extents_def

lemmas read_defs =
  getCombineAppend_def appendUpdatable_def scatterUpdatable_def scatterAll_def
  parseRowAppend_def parseRow_def combineRow_def column_bytes_def selectParent_def
  getColgroupSchema_def store_getValue_def store_records_def Schema_columnNum_def
  columnNum_def ColumnVec_new_def erase_all_def grow_cols_def vec_at_def vec_set_def
  getWrtStoreData_def readColgroup_def scatterKept_def scatterColgroup_def
  getValueByPhysicId_def getValueByLogicId_def getPhysicId_def
  MyStoreIter_increment_def MyStoreIter_seekExact_def
  WritableSegment_getValue_def ReadonlySegment_getValue_def

lemmas convert_defs =
  apply_mutations_def hd_batch_def writeColgroups_def beg_end_set1_def popcnt_def
  buildColgroups_def buildIndexColgroup_def buildStoreColgroup_def collectData_def
  SIZE_MAX_def bindOE_def
  store_save_def saveRecordStore_def ReadonlySegment_save_def loadStoreFiles_def
  loadRecordStore_def removePurgeBitsForCompactIdspace_def ReadonlySegment_load_def
  syncNewDeletionMark_def completeAndReload_def convFrom_def

text \<open>The first row the iterator hands out is right and leaves its columns in \<^verbatim>\<open>m_cols1\<close>.\<close>

lemma MyStoreIter_increment_first_row:
  "MyStoreIter_increment convert_schema_example convert_input_example 0 ''ab'' ColumnVec_new =
     Inr (''1ab'', \<lparr> m_base = ''ab1'', m_cols = [(0, 2), (2, 1)] \<rparr>)"
  by (simp add: convert_example_defs read_defs upt_conv_Cons)

text \<open>For the second row the columns of the first are still in front: the row is cut
  where the first row's columns were.\<close>

lemma MyStoreIter_increment_second_row:
  "MyStoreIter_increment convert_schema_example convert_input_example 1 ''wxyz''
     \<lparr> m_base = ''ab1'', m_cols = [(0, 2), (2, 1)] \<rparr> =
     Inr (''ywx'', \<lparr> m_base = ''wxyz2'', m_cols = [(0, 2), (2, 1), (0, 4), (4, 1)] \<rparr>)"
  by (simp add: convert_example_defs read_defs upt_conv_Cons)

text \<open>seekExact, which erases \<^verbatim>\<open>m_cols1\<close>, returns the row as getValue does.\<close>

lemma MyStoreIter_seekExact_second_row:
  "MyStoreIter_seekExact convert_schema_example convert_input_example 1 ''wxyz''
     \<lparr> m_base = ''ab1'', m_cols = [(0, 2), (2, 1)] \<rparr> =
     Inr (''2wxyz'', \<lparr> m_base = ''wxyz2'', m_cols = [(0, 4), (4, 1)] \<rparr>)"
  by (simp add: convert_example_defs read_defs upt_conv_Cons)

lemma convFrom_asserts_example:
  "convFrom_asserts convert_input_example"
  "convFrom_asserts convert_input_equal_lengths"
  "convFrom_asserts convert_input_all_deleted"
  by (simp_all add: convFrom_asserts_def convert_example_defs)

text \<open>
  Claim C1. The conversion does not keep the value of every live row.
  \<^verbatim>\<open>WritableSegment::MyStoreIter::increment\<close>, through which convFrom reads the input when a
  column group is updatable in place, never erases its \<^verbatim>\<open>m_cols1\<close>, while getCombineAppend
  appends to it and reads it from the front (seekExact and getValueAppend erase it
  first). On the frozen segment with the live rows \<open>(1, ab)\<close> and \<open>(2, wxyz)\<close>, which
  satisfies what convFrom asserts, converted while no other thread touches it: convFrom
  returns, row \<open>1\<close> is live in the input at the swap, the input's \<^verbatim>\<open>getValue(1)\<close> is
  \<open>2wxyz\<close>, and the new segment's \<^verbatim>\<open>getValue(1)\<close> is \<open>ywx\<close>: the row cut where the columns
  of row \<open>0\<close> were.
\<close>

theorem convFrom_stores_stale_columns:
  "convFrom_asserts convert_input_example
   \<and> convFrom keeping_builders convert_schema_example (\<lambda>c. 2 * c + 1) idle_environment
        convert_input_example =
      Some (Inr (convert_input_example\<lparr>m_bookUpdates := True\<rparr>,
                 ReadonlySegment_new\<lparr>m_isDel := [False, False],
                   m_colgroups := [PlainStore [''ab'', ''wx''], PlainStore [''1'', ''y'']]\<rparr>))
   \<and> m_isDel (convert_input_example\<lparr>m_bookUpdates := True\<rparr>) = [False, False]
   \<and> WritableSegment_getValue convert_schema_example
        (convert_input_example\<lparr>m_bookUpdates := True\<rparr>) 1 = Inr ''2wxyz''
   \<and> ReadonlySegment_getValue convert_schema_example
        (ReadonlySegment_new\<lparr>m_isDel := [False, False],
           m_colgroups := [PlainStore [''ab'', ''wx''], PlainStore [''1'', ''y'']]\<rparr>) 1
      = Inr ''ywx''"
proof (intro conjI)
  show "convFrom_asserts convert_input_example"
    by (simp add: convFrom_asserts_def convert_example_defs)
  show "convFrom keeping_builders convert_schema_example (\<lambda>c. 2 * c + 1) idle_environment
        convert_input_example =
      Some (Inr (convert_input_example\<lparr>m_bookUpdates := True\<rparr>,
                 ReadonlySegment_new\<lparr>m_isDel := [False, False],
                   m_colgroups := [PlainStore [''ab'', ''wx''], PlainStore [''1'', ''y'']]\<rparr>))"
    by (simp add: convert_example_defs read_defs convert_defs upt_conv_Cons)
  show "m_isDel (convert_input_example\<lparr>m_bookUpdates := True\<rparr>) = [False, False]"
    by (simp add: convert_example_defs)
  show "WritableSegment_getValue convert_schema_example
        (convert_input_example\<lparr>m_bookUpdates := True\<rparr>) 1 = Inr ''2wxyz''"
    by (simp add: convert_example_defs read_defs upt_conv_Cons)
  show "ReadonlySegment_getValue convert_schema_example
        (ReadonlySegment_new\<lparr>m_isDel := [False, False],
           m_colgroups := [PlainStore [''ab'', ''wx''], PlainStore [''1'', ''y'']]\<rparr>) 1
      = Inr ''ywx''"
    by (simp add: convert_example_defs read_defs upt_conv_Cons)
qed

text \<open>Row \<open>0\<close>, the first the iterator hands out, comes through.\<close>

lemma convFrom_first_row_kept:
  "WritableSegment_getValue convert_schema_example
     (convert_input_example\<lparr>m_bookUpdates := True\<rparr>) 0 = Inr ''1ab''"
  "ReadonlySegment_getValue convert_schema_example
     (ReadonlySegment_new\<lparr>m_isDel := [False, False],
        m_colgroups := [PlainStore [''ab'', ''wx''], PlainStore [''1'', ''y'']]\<rparr>) 0
   = Inr ''1ab''"
  by (simp_all add: convert_example_defs read_defs upt_conv_Cons)

text \<open>When the rows have one layout the columns left in \<^verbatim>\<open>m_cols1\<close> are those of the row
  at hand, and the conversion keeps both rows.\<close>

lemma convFrom_equal_lengths:
  "convFrom keeping_builders convert_schema_example (\<lambda>c. 2 * c + 1) idle_environment
     convert_input_equal_lengths =
   Some (Inr (convert_input_equal_lengths\<lparr>m_bookUpdates := True\<rparr>,
              ReadonlySegment_new\<lparr>m_isDel := [False, False],
                m_colgroups := [PlainStore [''ab'', ''wx''], PlainStore [''1'', ''2'']]\<rparr>))"
  "WritableSegment_getValue convert_schema_example
     (convert_input_equal_lengths\<lparr>m_bookUpdates := True\<rparr>) 1 = Inr ''2wx''"
  "ReadonlySegment_getValue convert_schema_example
     (ReadonlySegment_new\<lparr>m_isDel := [False, False],
        m_colgroups := [PlainStore [''ab'', ''wx''], PlainStore [''1'', ''2'']]\<rparr>) 1
   = Inr ''2wx''"
  by (simp_all add: convert_example_defs read_defs convert_defs upt_conv_Cons)

text \<open>
  Without a live row in the snapshot the loop that builds the parts of a store does not
  run, the store of column group \<open>0\<close> is a \<^verbatim>\<open>MultiPartStore\<close> without parts, nothing is
  saved for it, and loading the segment back throws \<^verbatim>\<open>invalid_argument\<close> (missing).
\<close>

lemma build_parts_no_row:
  "build_parts ext schema recs maxMem 0 0 iter [] = Some (Inr [])"
  by (subst build_parts.simps) simp

lemma convFrom_no_live_row:
  "convFrom keeping_builders convert_schema_noindex (\<lambda>c. 2 * c + 1) idle_environment
     convert_input_all_deleted = Some (Inl InvalidArgument)"
  by (simp add: convert_example_defs read_defs convert_defs build_parts_no_row upt_conv_Cons)

text \<open>The same table converts when its rows are live: one round of the loop builds the
  one part.\<close>

lemma convFrom_noindex_parts:
  "buildColgroups keeping_builders convert_schema_noindex [[''ab'', ''wx''], [''1'', ''y'']] 2 =
     Some (Inr [PlainStore [''ab'', ''wx''], PlainStore [''1'', ''y'']])"
  by (simp add: convert_example_defs read_defs convert_defs build_parts.simps upt_conv_Cons)

text \<open>With the builders of the sources' own segment class the table of the example cannot
  be converted at all: \<^verbatim>\<open>buildIndex\<close> returns a null pointer for the index on a string.\<close>

lemma convFrom_base_builders:
  "convFrom base_builders convert_schema_example (\<lambda>c. 2 * c + 1) idle_environment
     convert_input_example = Some (Inl OutOfBounds)"
  by (simp add: convert_example_defs read_defs convert_defs upt_conv_Cons)

end
